theory Spec2Isabelle
  imports Main "HOL-Library.Log_Nat" "HOL-Library.AList" "HOL-Library.Sublist"
begin

section \<open>Python values used by \<^verbatim>\<open>app.py\<close>\<close>

subsection \<open>Floats\<close>

text \<open>
  A Python \<^verbatim>\<open>float\<close> is an IEEE 754 binary64 value: a finite number (a rational),
  an infinity or a NaN. The sign of zero is not represented: no comparison of
  \<^verbatim>\<open>app.py\<close> observes it.
\<close>

datatype pyfloat = Fin rat | PInf | NInf | NaN

text \<open>Rounding a rational to the nearest integer, ties to the even one.\<close>

definition round_half_even :: "rat \<Rightarrow> int" where
  "round_half_even t =
     (let n = \<lfloor>t\<rfloor>; d = t - of_int n
      in if d < 1 / 2 then n else if 1 / 2 < d then n + 1 else if even n then n else n + 1)"

text \<open>
  The binary exponent of a positive rational, \<open>2 powi ilog2 x \<le> x < 2 powi (ilog2 x + 1)\<close>,
  read off the bit length of \<open>\<lfloor>x\<rfloor>\<close> when \<open>1 \<le> x\<close> and of \<open>\<lceil>1 / x\<rceil> - 1\<close> otherwise.
\<close>

definition ilog2 :: "rat \<Rightarrow> int" where
  "ilog2 x =
     (if 1 \<le> x then int (floorlog 2 (nat \<lfloor>x\<rfloor>)) - 1
      else - int (floorlog 2 (nat (\<lceil>1 / x\<rceil> - 1))))"

text \<open>
  Round to nearest, ties to even, on the binary64 grid: 53 significant bits, and the
  fixed spacing \<open>2 powi - 1074\<close> of the subnormal range. The exponent is not bounded
  above here; \<open>fl\<close> turns a result beyond the largest double into an infinity.
\<close>

definition round_to_double :: "rat \<Rightarrow> rat" where
  "round_to_double x =
     (if x = 0 then 0
      else let k = max (ilog2 \<bar>x\<bar> - 52) (- 1074)
           in of_int (round_half_even (x / 2 powi k)) * 2 powi k)"

definition fl :: "rat \<Rightarrow> pyfloat" where
  "fl x =
     (let y = round_to_double x
      in if 2 ^ 1024 \<le> y then PInf else if y \<le> - (2 ^ 1024) then NInf else Fin y)"

text \<open>The comparisons \<^verbatim>\<open>a < b\<close> and \<^verbatim>\<open>a <= b\<close>: false as soon as one side is a NaN.\<close>

fun py_lt :: "pyfloat \<Rightarrow> pyfloat \<Rightarrow> bool" where
  "py_lt NaN b = False"
| "py_lt a NaN = False"
| "py_lt (Fin a) (Fin b) = (a < b)"
| "py_lt (Fin a) PInf = True"
| "py_lt NInf (Fin b) = True"
| "py_lt NInf PInf = True"
| "py_lt a b = False"

fun py_le :: "pyfloat \<Rightarrow> pyfloat \<Rightarrow> bool" where
  "py_le NaN b = False"
| "py_le a NaN = False"
| "py_le (Fin a) (Fin b) = (a \<le> b)"
| "py_le NInf b = True"
| "py_le a PInf = True"
| "py_le a b = False"

text \<open>\<^verbatim>\<open>a - b\<close> and \<^verbatim>\<open>a * b\<close>: the exact result, rounded; neither raises.\<close>

fun py_sub :: "pyfloat \<Rightarrow> pyfloat \<Rightarrow> pyfloat" where
  "py_sub NaN b = NaN"
| "py_sub a NaN = NaN"
| "py_sub (Fin a) (Fin b) = fl (a - b)"
| "py_sub PInf PInf = NaN"
| "py_sub NInf NInf = NaN"
| "py_sub PInf b = PInf"
| "py_sub NInf b = NInf"
| "py_sub (Fin a) PInf = NInf"
| "py_sub (Fin a) NInf = PInf"

fun py_mul :: "pyfloat \<Rightarrow> pyfloat \<Rightarrow> pyfloat" where
  "py_mul NaN b = NaN"
| "py_mul a NaN = NaN"
| "py_mul (Fin a) (Fin b) = fl (a * b)"
| "py_mul (Fin a) PInf = (if a = 0 then NaN else if 0 < a then PInf else NInf)"
| "py_mul (Fin a) NInf = (if a = 0 then NaN else if 0 < a then NInf else PInf)"
| "py_mul PInf (Fin b) = (if b = 0 then NaN else if 0 < b then PInf else NInf)"
| "py_mul NInf (Fin b) = (if b = 0 then NaN else if 0 < b then NInf else PInf)"
| "py_mul PInf PInf = PInf"
| "py_mul NInf NInf = PInf"
| "py_mul PInf NInf = NInf"
| "py_mul NInf PInf = NInf"

text \<open>
  \<^verbatim>\<open>round(x, 2)\<close> on a float: the exact value of \<open>x\<close> rounded to two decimals, ties to
  even, then to the nearest double. An infinity or a NaN is returned as it is.
\<close>

fun py_round2 :: "pyfloat \<Rightarrow> pyfloat" where
  "py_round2 (Fin x) = fl (of_int (round_half_even (x * 100)) / 100)"
| "py_round2 a = a"

subsection \<open>Exceptions\<close>

text \<open>
  An exception is its class and its text, \<^verbatim>\<open>str(e)\<close>. Every class below derives from
  \<^verbatim>\<open>Exception\<close>; \<open>OtherException\<close> stands for the ones that the code never names
  (what the web framework, the model wrapper or the data library may raise). The texts
  of the exceptions that the interpreter raises are those of CPython 3.11 to 3.13.
\<close>

datatype exc_class = TypeError | ValueError | OverflowError | KeyError | OtherException

datatype py_exception = PyExc exc_class string

fun exc_type :: "py_exception \<Rightarrow> exc_class" where
  "exc_type (PyExc c txt) = c"

fun exc_str :: "py_exception \<Rightarrow> string" where
  "exc_str (PyExc c txt) = txt"

definition quoted :: "string \<Rightarrow> string" where
  "quoted s = CHR 0x27 # s @ [CHR 0x27]"

subsection \<open>Parsed JSON\<close>

text \<open>
  What \<^verbatim>\<open>request.get_json()\<close> returns: \<^verbatim>\<open>None\<close>, a \<^verbatim>\<open>bool\<close>, an \<^verbatim>\<open>int\<close>, a
  \<^verbatim>\<open>float\<close>, a \<^verbatim>\<open>str\<close>, a \<^verbatim>\<open>list\<close> or a \<^verbatim>\<open>dict\<close> with string keys. A
  \<^verbatim>\<open>dict\<close> is the list of its items, read with \<open>map_of\<close>.
\<close>

datatype json =
    JNull
  | JBool bool
  | JInt int
  | JFloat pyfloat
  | JStr string
  | JList "json list"
  | JDict "(string \<times> json) list"

fun type_name :: "json \<Rightarrow> string" where
  "type_name JNull = ''NoneType''"
| "type_name (JBool b) = ''bool''"
| "type_name (JInt i) = ''int''"
| "type_name (JFloat x) = ''float''"
| "type_name (JStr s) = ''str''"
| "type_name (JList xs) = ''list''"
| "type_name (JDict kv) = ''dict''"

text \<open>
  \<^verbatim>\<open>field in data_input\<close> for a string \<^verbatim>\<open>field\<close>: a key of a \<^verbatim>\<open>dict\<close>, an element of
  a \<^verbatim>\<open>list\<close>, a substring of a \<^verbatim>\<open>str\<close>; any other value is not a container, and
  the test raises \<^verbatim>\<open>TypeError\<close>.
\<close>

fun py_contains :: "json \<Rightarrow> string \<Rightarrow> py_exception + bool" where
  "py_contains (JDict kv) k = Inr (map_of kv k \<noteq> None)"
| "py_contains (JList xs) k = Inr (JStr k \<in> set xs)"
| "py_contains (JStr s) k = Inr (sublist k s)"
| "py_contains v k =
     Inl (PyExc TypeError (''argument of type '' @ quoted (type_name v) @ '' is not iterable''))"

text \<open>\<^verbatim>\<open>data_input[field]\<close> for a string \<^verbatim>\<open>field\<close>: only a \<^verbatim>\<open>dict\<close> can be indexed by it.\<close>

fun py_getitem :: "json \<Rightarrow> string \<Rightarrow> py_exception + json" where
  "py_getitem (JDict kv) k =
     (case map_of kv k of Some v \<Rightarrow> Inr v | None \<Rightarrow> Inl (PyExc KeyError (quoted k)))"
| "py_getitem (JList xs) k =
     Inl (PyExc TypeError ''list indices must be integers or slices, not str'')"
| "py_getitem (JStr s) k =
     Inl (PyExc TypeError (''string indices must be integers, not '' @ quoted ''str''))"
| "py_getitem v k =
     Inl (PyExc TypeError (quoted (type_name v) @ '' object is not subscriptable''))"

text \<open>
  \<^verbatim>\<open>float(v)\<close>. The grammar of float literals in a \<^verbatim>\<open>str\<close> is the interpreter's; it is the
  parameter \<open>sf\<close>, which gives \<open>None\<close> where the interpreter raises \<^verbatim>\<open>ValueError\<close>. An
  \<^verbatim>\<open>int\<close> is rounded to the nearest double, and one beyond the largest double raises
  \<^verbatim>\<open>OverflowError\<close>. A \<^verbatim>\<open>bool\<close> is the number 1 or 0. The text of the \<^verbatim>\<open>ValueError\<close>
  stops before the copy of the string that the interpreter appends; the handler
  reads the text of neither \<^verbatim>\<open>ValueError\<close> nor \<^verbatim>\<open>TypeError\<close>.
\<close>

fun py_float :: "(string \<Rightarrow> pyfloat option) \<Rightarrow> json \<Rightarrow> py_exception + pyfloat" where
  "py_float sf (JFloat x) = Inr x"
| "py_float sf (JInt i) =
     (case fl (of_int i) of
        Fin y \<Rightarrow> Inr (Fin y)
      | _ \<Rightarrow> Inl (PyExc OverflowError ''int too large to convert to float''))"
| "py_float sf (JBool b) = Inr (Fin (if b then 1 else 0))"
| "py_float sf (JStr s) =
     (case sf s of
        Some x \<Rightarrow> Inr x
      | None \<Rightarrow> Inl (PyExc ValueError ''could not convert string to float''))"
| "py_float sf v =
     Inl (PyExc TypeError
       (''float() argument must be a string or a real number, not '' @ quoted (type_name v)))"

subsection \<open>Float literals in ASCII strings\<close>

text \<open>
  CPython's reading of a float literal, on ASCII text: white space is stripped at both
  ends, an underscore may stand between two digits, a sign may come first, and what
  is left is \<^verbatim>\<open>inf\<close>, \<^verbatim>\<open>infinity\<close> or \<^verbatim>\<open>nan\<close> in any letter case, or a decimal number
  with an optional fraction and an optional exponent. The value is the nearest double;
  a literal beyond the largest double is an infinity.
\<close>

definition is_space :: "char \<Rightarrow> bool" where
  "is_space c = (c \<in> set [CHR '' '', CHR 0x09, CHR 0x0A, CHR 0x0B, CHR 0x0C, CHR 0x0D])"

definition is_digit :: "char \<Rightarrow> bool" where
  "is_digit c = (c \<in> set ''0123456789'')"

definition lower_char :: "char \<Rightarrow> char" where
  "lower_char c =
     (case map_of (zip ''ABCDEFGHIJKLMNOPQRSTUVWXYZ'' ''abcdefghijklmnopqrstuvwxyz'') c of
        Some d \<Rightarrow> d
      | None \<Rightarrow> c)"

definition digits_value :: "string \<Rightarrow> nat" where
  "digits_value ds = foldl (\<lambda>a c. 10 * a + (of_char c - 48)) 0 ds"

definition strip_spaces :: "string \<Rightarrow> string" where
  "strip_spaces s = rev (dropWhile is_space (rev (dropWhile is_space s)))"

fun drop_underscores :: "char \<Rightarrow> string \<Rightarrow> string option" where
  "drop_underscores prev [] = (if prev = CHR ''_'' then None else Some [])"
| "drop_underscores prev (c # cs) =
     (if c = CHR ''_'' then (if is_digit prev then drop_underscores c cs else None)
      else if prev = CHR ''_'' \<and> \<not> is_digit c then None
      else map_option ((#) c) (drop_underscores c cs))"

fun split_sign :: "string \<Rightarrow> bool \<times> string" where
  "split_sign [] = (False, [])"
| "split_sign (c # cs) =
     (if c = CHR ''-'' then (True, cs) else if c = CHR ''+'' then (False, cs) else (False, c # cs))"

definition parse_exponent :: "string \<Rightarrow> int option" where
  "parse_exponent r =
     (case r of
        [] \<Rightarrow> Some 0
      | c # t \<Rightarrow>
          if c = CHR ''e'' \<or> c = CHR ''E'' then
            (let (neg, ds) = split_sign t
             in if ds \<noteq> [] \<and> list_all is_digit ds
                then Some ((if neg then - 1 else 1) * int (digits_value ds))
                else None)
          else None)"

definition parse_decimal :: "string \<Rightarrow> rat option" where
  "parse_decimal s =
     (let ip = takeWhile is_digit s;
          r1 = dropWhile is_digit s;
          fp = (case r1 of [] \<Rightarrow> [] | c # t \<Rightarrow> if c = CHR ''.'' then takeWhile is_digit t else []);
          r2 = (case r1 of [] \<Rightarrow> [] | c # t \<Rightarrow> if c = CHR ''.'' then dropWhile is_digit t else r1)
      in if ip = [] \<and> fp = [] then None
         else map_option
                (\<lambda>ex. of_nat (digits_value (ip @ fp)) * 10 powi (ex - int (length fp)))
                (parse_exponent r2))"

definition ascii_float :: "string \<Rightarrow> pyfloat option" where
  "ascii_float s0 =
     (case drop_underscores (CHR 0x00) (strip_spaces s0) of
        None \<Rightarrow> None
      | Some s \<Rightarrow>
          (let (neg, num) = split_sign s; w = map lower_char num
           in if w = ''inf'' \<or> w = ''infinity'' then Some (if neg then NInf else PInf)
              else if w = ''nan'' then Some NaN
              else map_option (\<lambda>q. fl (if neg then - q else q)) (parse_decimal num)))"

section \<open>The request handlers of \<^verbatim>\<open>app.py\<close>\<close>

subsection \<open>Responses\<close>

text \<open>
  The body under \<^verbatim>\<open>'output'\<close> of a successful \<^verbatim>\<open>/predict\<close> response, and the
  shapes of JSON body that the handlers build. \<^verbatim>\<open>handle_inference\<close>:
  \<^verbatim>\<open>{'success': False, 'message': m}\<close>, \<^verbatim>\<open>{'status': 'success', 'output': o}\<close> and
  \<^verbatim>\<open>{'status': 'error', 'details': d}\<close>. \<^verbatim>\<open>provide_example_cases\<close>:
  \<^verbatim>\<open>{'success': True, 'payload': {'benign_case': b, 'malignant_case': m}}\<close> and
  \<^verbatim>\<open>{'success': False, 'error': t}\<close>. A value of the data set is a number or a text.
  A response is the HTTP status with the body; a body returned without a status is
  sent with 200.
\<close>

record prediction_output =
  label :: string
  is_benign :: bool
  confidence :: pyfloat
  description :: string
  disclaimer :: string

datatype cell = CNum pyfloat | CStr string

datatype body =
    ValidationFailure string
  | PredictionSuccess prediction_output
  | ServerError string
  | SamplesPayload "(string \<times> cell) list" "(string \<times> cell) list"
  | SamplesFailure string

datatype response = Response nat body

subsection \<open>The model wrapper\<close>

text \<open>
  \<^verbatim>\<open>cancer_detector\<close>, an object of the class \<^verbatim>\<open>BreastCancerModel\<close> of \<^verbatim>\<open>model.py\<close>. The
  handlers read its list \<^verbatim>\<open>feature_names\<close> and call its \<^verbatim>\<open>predict\<close> with a \<^verbatim>\<open>dict\<close>
  from feature name to float, here the list of its items in insertion order;
  \<^verbatim>\<open>predict\<close> returns a class indicator and a probability, or raises.
\<close>

type_synonym metrics = "(string \<times> pyfloat) list"

record model_wrapper =
  feature_names :: "string list"
  predict :: "metrics \<Rightarrow> py_exception + (int \<times> pyfloat)"

subsection \<open>\<^verbatim>\<open>handle_inference\<close>\<close>

text \<open>
  The inner \<^verbatim>\<open>try\<close> block of the validation loop, for one field:
  \<^verbatim>\<open>val = float(data_input[field])\<close>, then \<^verbatim>\<open>raise ValueError\<close> if \<^verbatim>\<open>val < 0\<close>. Here and
  below \<open>sf\<close> is the interpreter's reading of float literals, as in \<open>py_float\<close>.
\<close>

definition convert_field ::
    "(string \<Rightarrow> pyfloat option) \<Rightarrow> json \<Rightarrow> string \<Rightarrow> py_exception + pyfloat" where
  "convert_field sf data_input field =
     (case py_getitem data_input field of
        Inl e \<Rightarrow> Inl e
      | Inr v \<Rightarrow>
          (case py_float sf v of
             Inl e \<Rightarrow> Inl e
           | Inr val \<Rightarrow> if py_lt val (Fin 0) then Inl (PyExc ValueError []) else Inr val))"

text \<open>
  The loop \<^verbatim>\<open>for field in cancer_detector.feature_names\<close>. It ends in one of three
  ways: it runs to its end with \<^verbatim>\<open>validated_metrics\<close> filled, a \<^verbatim>\<open>return\<close> inside it
  leaves the handler with a response, or an exception leaves it. The clause
  \<^verbatim>\<open>except (ValueError, TypeError)\<close> catches the exceptions of the inner block of these
  two classes only.
\<close>

datatype loop_exit =
    Completed metrics
  | Returned response
  | Raised py_exception

fun validate_fields ::
    "(string \<Rightarrow> pyfloat option) \<Rightarrow> string list \<Rightarrow> json \<Rightarrow> metrics \<Rightarrow> loop_exit" where
  "validate_fields sf [] data_input validated_metrics = Completed validated_metrics"
| "validate_fields sf (field # rest) data_input validated_metrics =
     (case py_contains data_input field of
        Inl e \<Rightarrow> Raised e
      | Inr False \<Rightarrow> Returned (Response 400 (ValidationFailure (''Missing: '' @ field)))
      | Inr True \<Rightarrow>
          (case convert_field sf data_input field of
             Inl e \<Rightarrow>
               if exc_type e = ValueError \<or> exc_type e = TypeError
               then Returned (Response 400 (ValidationFailure (''Invalid numeric data: '' @ field)))
               else Raised e
           | Inr val \<Rightarrow>
               validate_fields sf rest data_input (AList.update field val validated_metrics)))"

text \<open>The success response built from what \<^verbatim>\<open>predict\<close> returned.\<close>

definition success_response :: "int \<Rightarrow> pyfloat \<Rightarrow> response" where
  "success_response predicted_class probability =
     (let is_healthy = (predicted_class = 1);
          score = (if is_healthy then probability else py_sub (Fin 1) probability);
          message = (if is_healthy then ''Analysis complete: The tumor is likely BENIGN.''
                     else ''Analysis complete: The tumor is likely MALIGNANT.'')
      in Response 200 (PredictionSuccess
           \<lparr> label = (if is_healthy then ''Benign'' else ''Malignant''),
             is_benign = is_healthy,
             confidence = py_round2 (py_mul score (Fin 100)),
             description = message,
             disclaimer = ''For academic purposes only. Seek medical advice for diagnosis.'' \<rparr>))"

text \<open>
  The body of the outer \<^verbatim>\<open>try\<close>. The request is what \<^verbatim>\<open>request.get_json()\<close> does: it
  returns the parsed body or raises. The result is the response returned or the
  exception raised, with the list of the arguments \<^verbatim>\<open>predict\<close> was called with.
\<close>

definition inference_body ::
    "model_wrapper \<Rightarrow> (string \<Rightarrow> pyfloat option) \<Rightarrow> py_exception + json
       \<Rightarrow> (py_exception + response) \<times> metrics list" where
  "inference_body cancer_detector sf request =
     (case request of
        Inl e \<Rightarrow> (Inl e, [])
      | Inr data_input \<Rightarrow>
          (case validate_fields sf (feature_names cancer_detector) data_input [] of
             Returned r \<Rightarrow> (Inr r, [])
           | Raised e \<Rightarrow> (Inl e, [])
           | Completed validated_metrics \<Rightarrow>
               (case predict cancer_detector validated_metrics of
                  Inl e \<Rightarrow> (Inl e, [validated_metrics])
                | Inr (predicted_class, probability) \<Rightarrow>
                    (Inr (success_response predicted_class probability), [validated_metrics]))))"

text \<open>
  \<^verbatim>\<open>handle_inference\<close>: the body, and the clause \<^verbatim>\<open>except Exception as error_log\<close> that
  turns any exception into the response 500 with \<^verbatim>\<open>str(error_log)\<close>.
\<close>

definition handle_inference ::
    "model_wrapper \<Rightarrow> (string \<Rightarrow> pyfloat option) \<Rightarrow> py_exception + json \<Rightarrow> response" where
  "handle_inference cancer_detector sf request =
     (case fst (inference_body cancer_detector sf request) of
        Inr r \<Rightarrow> r
      | Inl error_log \<Rightarrow> Response 500 (ServerError (exc_str error_log)))"

definition predict_calls ::
    "model_wrapper \<Rightarrow> (string \<Rightarrow> pyfloat option) \<Rightarrow> py_exception + json \<Rightarrow> metrics list" where
  "predict_calls cancer_detector sf request = snd (inference_body cancer_detector sf request)"

text \<open>
  A field passes the loop when it is in \<^verbatim>\<open>data_input\<close> and the inner block raises
  nothing for it; \<open>accepted_value\<close> is the float the loop then stores.
\<close>

definition accepted_value ::
    "(string \<Rightarrow> pyfloat option) \<Rightarrow> json \<Rightarrow> string \<Rightarrow> pyfloat option" where
  "accepted_value sf data_input field =
     (case py_contains data_input field of
        Inr True \<Rightarrow> (case convert_field sf data_input field of Inr val \<Rightarrow> Some val | Inl e \<Rightarrow> None)
      | _ \<Rightarrow> None)"

definition valid_entry :: "(string \<Rightarrow> pyfloat option) \<Rightarrow> json \<Rightarrow> string \<Rightarrow> bool" where
  "valid_entry sf data_input field = (accepted_value sf data_input field \<noteq> None)"

subsection \<open>\<^verbatim>\<open>provide_example_cases\<close>\<close>

text \<open>
  A \<^verbatim>\<open>DataFrame\<close>: its column labels and its rows, each row the values under the
  columns in order. \<^verbatim>\<open>read_csv\<close> makes the labels distinct.
\<close>

datatype dataframe = DataFrame (columns: "string list") (rows: "cell list list")

text \<open>
  \<^verbatim>\<open>dataset[dataset['diagnosis'] == v]\<close>: \<^verbatim>\<open>KeyError\<close> without the column, else the rows
  whose value there is the number \<open>v\<close>.
\<close>

definition select_diagnosis :: "int \<Rightarrow> dataframe \<Rightarrow> py_exception + dataframe" where
  "select_diagnosis v df =
     (if ''diagnosis'' \<in> set (columns df)
      then Inr (DataFrame (columns df)
             (filter (\<lambda>r. map_of (zip (columns df) r) ''diagnosis'' = Some (CNum (Fin (of_int v))))
                (rows df)))
      else Inl (PyExc KeyError (quoted ''diagnosis'')))"

text \<open>
  \<^verbatim>\<open>.sample(n=1)\<close>: one row, chosen by the random generator, whose draw is \<open>r\<close>; on a frame
  with no row the generator raises \<^verbatim>\<open>ValueError\<close>, here with the text that numpy gives it.
\<close>

definition empty_population_error :: py_exception where
  "empty_population_error =
     PyExc ValueError ''a must be greater than 0 unless no samples are taken''"

definition sample1 :: "nat \<Rightarrow> dataframe \<Rightarrow> py_exception + dataframe" where
  "sample1 r df =
     (if rows df = [] then Inl empty_population_error
      else Inr (DataFrame (columns df) [rows df ! (r mod length (rows df))]))"

text \<open>\<^verbatim>\<open>.drop(columns=[c])\<close>: \<^verbatim>\<open>KeyError\<close> without the column, else the frame without it.\<close>

definition drop_column :: "string \<Rightarrow> dataframe \<Rightarrow> py_exception + dataframe" where
  "drop_column c df =
     (if c \<in> set (columns df)
      then Inr (DataFrame (filter (\<lambda>k. k \<noteq> c) (columns df))
             (map (\<lambda>r. map snd (filter (\<lambda>kx. fst kx \<noteq> c) (zip (columns df) r))) (rows df)))
      else Inl (PyExc KeyError (CHR 0x22 # ''['' @ quoted c @ ''] not found in axis'' @ [CHR 0x22])))"

text \<open>\<^verbatim>\<open>.iloc[0].to_dict()\<close>: the first row as a \<^verbatim>\<open>dict\<close> from column label to value.\<close>

definition iloc0_to_dict :: "dataframe \<Rightarrow> py_exception + (string \<times> cell) list" where
  "iloc0_to_dict df =
     (case rows df of
        [] \<Rightarrow> Inl (PyExc OtherException ''single positional indexer is out-of-bounds'')
      | r # rs \<Rightarrow> Inr (zip (columns df) r))"

text \<open>
  One of the two lines
  \<^verbatim>\<open>dataset[dataset['diagnosis'] == v].sample(n=1).drop(columns=['diagnosis']).iloc[0].to_dict()\<close>.
\<close>

definition sample_case :: "int \<Rightarrow> nat \<Rightarrow> dataframe \<Rightarrow> py_exception + (string \<times> cell) list" where
  "sample_case v r dataset =
     (case select_diagnosis v dataset of
        Inl e \<Rightarrow> Inl e
      | Inr selected \<Rightarrow>
          (case sample1 r selected of
             Inl e \<Rightarrow> Inl e
           | Inr drawn \<Rightarrow>
               (case drop_column ''diagnosis'' drawn of
                  Inl e \<Rightarrow> Inl e
                | Inr stripped \<Rightarrow> iloc0_to_dict stripped)))"

text \<open>
  \<^verbatim>\<open>provide_example_cases\<close>. \<open>read_csv k\<close> is what the \<open>k\<close>-th attempt to read
  \<^verbatim>\<open>data/breast_cancer.csv\<close> gives, the data set or an exception; the handler makes
  attempt 0 and no other. \<open>r1\<close> and \<open>r2\<close> are the two draws of the random generator. Both
  responses are returned without a status.
\<close>

definition provide_example_cases ::
    "(nat \<Rightarrow> py_exception + dataframe) \<Rightarrow> nat \<Rightarrow> nat \<Rightarrow> response" where
  "provide_example_cases read_csv r1 r2 =
     (case (case read_csv 0 of
              Inl e \<Rightarrow> Inl e
            | Inr dataset \<Rightarrow>
                (case sample_case 1 r1 dataset of
                   Inl e \<Rightarrow> Inl e
                 | Inr sample_benign \<Rightarrow>
                     (case sample_case 0 r2 dataset of
                        Inl e \<Rightarrow> Inl e
                      | Inr sample_malignant \<Rightarrow>
                          Inr (Response 200 (SamplesPayload sample_benign sample_malignant))))) of
        Inr r \<Rightarrow> r
      | Inl e \<Rightarrow> Response 200 (SamplesFailure (exc_str e)))"

section \<open>Concrete inputs\<close>

text \<open>
  A wrapper with two features whose \<^verbatim>\<open>predict\<close> reads the vector: class 1 with the
  double nearest to 0.92 when \<^verbatim>\<open>radius_mean\<close> is below 15, class 0 with 0.75 otherwise,
  and \<^verbatim>\<open>KeyError\<close> without \<^verbatim>\<open>radius_mean\<close>.
\<close>

definition demo_predict :: "metrics \<Rightarrow> py_exception + (int \<times> pyfloat)" where
  "demo_predict m =
     (case map_of m ''radius_mean'' of
        None \<Rightarrow> Inl (PyExc KeyError (quoted ''radius_mean''))
      | Some x \<Rightarrow>
          if py_lt x (Fin 15) then Inr (1, Fin (8286623314361713 / 2 ^ 53))
          else Inr (0, Fin (3 / 4)))"

definition demo_detector :: model_wrapper where
  "demo_detector = \<lparr> feature_names = [''radius_mean'', ''texture_mean''], predict = demo_predict \<rparr>"

text \<open>A wrapper whose \<^verbatim>\<open>predict\<close> always raises.\<close>

definition failing_detector :: model_wrapper where
  "failing_detector =
     \<lparr> feature_names = [''radius_mean''],
       predict = (\<lambda>m. Inl (PyExc OtherException ''model is not loaded'')) \<rparr>"

text \<open>A data set of three rows, and a file that is missing at the first attempt only.\<close>

definition demo_dataset :: dataframe where
  "demo_dataset =
     DataFrame [''diagnosis'', ''radius_mean'']
       [[CNum (Fin 1), CNum (Fin 12)], [CNum (Fin 0), CNum (Fin 20)], [CNum (Fin 1), CNum (Fin 13)]]"

definition missing_then_present :: "nat \<Rightarrow> py_exception + dataframe" where
  "missing_then_present k =
     (if k = 0 then Inl (PyExc OtherException ''No such file or directory'')
      else Inr demo_dataset)"

text \<open>An integer that is no double: the least power of two beyond the largest one.\<close>

definition huge_int :: int where
  "huge_int = 2 ^ 1024"

section \<open>Evaluation of floats on numerals\<close>

lemma floor_rat_numeral: "\<lfloor>numeral a / numeral b :: rat\<rfloor> = numeral a div numeral b"
  by (metis floor_divide_of_int_eq of_int_numeral)

lemma floor_rat_neg_numeral: "\<lfloor>- (numeral a / numeral b) :: rat\<rfloor> = - numeral a div numeral b"
  by (metis divide_minus_left floor_divide_of_int_eq of_int_neg_numeral of_int_numeral)

lemma ceiling_rat_numeral: "\<lceil>numeral a / numeral b :: rat\<rceil> = - (- numeral a div numeral b)"
  by (metis ceiling_def floor_rat_neg_numeral)

lemma ceiling_rat_neg_numeral: "\<lceil>- (numeral a / numeral b) :: rat\<rceil> = - (numeral a div numeral b)"
  by (simp add: ceiling_def floor_rat_numeral)

lemma floor_rat_one_div: "\<lfloor>1 / numeral b :: rat\<rfloor> = 1 div numeral b"
  by (metis floor_divide_of_int_eq of_int_1 of_int_numeral)

lemma ceiling_rat_one_div: "\<lceil>1 / numeral b :: rat\<rceil> = - (- 1 div numeral b)"
  by (metis ceiling_def divide_minus_left floor_divide_of_int_eq of_int_1 of_int_minus of_int_numeral)

lemmas fl_eval = fl_def round_to_double_def ilog2_def round_half_even_def compute_floorlog Let_def
  floor_rat_numeral floor_rat_neg_numeral ceiling_rat_numeral ceiling_rat_neg_numeral
  floor_rat_one_div ceiling_rat_one_div

lemmas parse_eval = ascii_float_def strip_spaces_def is_space_def is_digit_def lower_char_def
  digits_value_def parse_exponent_def parse_decimal_def

lemmas handler_eval = handle_inference_def predict_calls_def inference_body_def convert_field_def
  success_response_def demo_detector_def demo_predict_def

lemma floorlog_2_pow: "floorlog 2 (2 ^ n) = n + 1"
  using floorlog_power [of 1 2 n] by (simp add: compute_floorlog)

lemma round_half_even_of_int: "round_half_even (of_int n) = n"
  by (simp add: round_half_even_def)

lemma round_to_double_pow2:
  assumes "52 \<le> n"
  shows "round_to_double (2 ^ n) = 2 ^ n"
proof -
  obtain j where n: "n = j + 52"
    using assms by (metis add.commute le_Suc_ex)
  have "\<lfloor>(2::rat) ^ n\<rfloor> = 2 ^ n"
    by (metis floor_of_int of_int_numeral of_int_power)
  then have e: "ilog2 (2 ^ n) = int n"
    by (simp add: ilog2_def nat_power_eq floorlog_2_pow)
  have "\<bar>(2::rat) ^ n\<bar> = 2 ^ n"
    by simp
  then have k: "max (ilog2 \<bar>2 ^ n\<bar> - 52) (- 1074) = int j"
    by (simp only: e) (simp add: n)
  have q: "(2::rat) ^ n / 2 powi (int j) = of_int (2 ^ 52)"
    by (simp add: n power_add)
  show ?thesis
    unfolding round_to_double_def Let_def k q round_half_even_of_int
    by (simp add: n power_add)
qed

lemma fl_pow2_overflow:
  assumes "1024 \<le> n"
  shows "fl (2 ^ n) = PInf"
proof -
  have "(2::rat) ^ 1024 \<le> 2 ^ n"
    using assms by (intro power_increasing) simp_all
  moreover have "round_to_double (2 ^ n) = 2 ^ n"
    using assms by (intro round_to_double_pow2) simp
  ultimately show ?thesis
    unfolding fl_def Let_def by (simp only: if_True)
qed

lemma fl_huge_int: "fl (of_int huge_int) = PInf"
  unfolding huge_int_def using fl_pow2_overflow [of 1024] by simp

lemma py_float_huge_int:
  "py_float sf (JInt huge_int) = Inl (PyExc OverflowError ''int too large to convert to float'')"
  by (simp add: fl_huge_int)

section \<open>Bounds on rounded floats\<close>

lemma ilog2_lower:
  assumes "0 < x"
  shows "2 powi ilog2 x \<le> x"
proof (cases "1 \<le> x")
  case True
  define n where "n = nat \<lfloor>x\<rfloor>"
  define F where "F = floorlog 2 n"
  from True have "1 \<le> \<lfloor>x\<rfloor>"
    by (simp add: le_floor_iff)
  then have n: "0 < n" and nx: "of_nat n \<le> x"
    unfolding n_def by simp_all
  from floorlog_bounds [OF n, of 2] have b: "2 ^ (F - 1) \<le> n"
    unfolding F_def by simp
  from n have "0 < F"
    unfolding F_def by (simp add: floorlog_def)
  then have "int F - 1 = int (F - 1)"
    by simp
  moreover have "ilog2 x = int F - 1"
    using True unfolding F_def n_def by (simp add: ilog2_def)
  ultimately have "ilog2 x = int (F - 1)"
    by (simp only:)
  then have "(2::rat) powi ilog2 x = 2 ^ (F - 1)"
    by (simp only: power_int_of_nat)
  also have "\<dots> = of_nat (2 ^ (F - 1))"
    by simp
  also have "\<dots> \<le> of_nat n"
    using b by (simp only: of_nat_le_iff)
  finally show ?thesis using nx by simp
next
  case False
  define c where "c = \<lceil>1 / x\<rceil>"
  define L where "L = floorlog 2 (nat (c - 1))"
  from False assms have "1 < 1 / x"
    by simp
  then have c2: "2 \<le> c"
    unfolding c_def by (simp add: le_ceiling_iff)
  then have "0 < nat (c - 1)"
    by simp
  from floorlog_bounds [OF this, of 2] have "nat (c - 1) < 2 ^ L"
    unfolding L_def by simp
  then have "c - 1 < 2 ^ L"
    using c2 by (simp add: nat_less_iff)
  then have "c \<le> 2 ^ L"
    by simp
  then have "rat_of_int c \<le> of_int (2 ^ L)"
    by (simp only: of_int_le_iff)
  then have cL: "of_int c \<le> (2::rat) ^ L"
    by simp
  have "1 / x \<le> of_int c"
    unfolding c_def by (rule le_of_int_ceiling)
  from this cL have "1 / x \<le> 2 ^ L"
    by (rule order_trans)
  then have "1 \<le> 2 ^ L * x"
    using assms by (simp add: pos_divide_le_eq)
  then have "1 / 2 ^ L \<le> x"
    by (simp add: pos_divide_le_eq mult.commute)
  moreover have "ilog2 x = - int L"
    using False unfolding L_def c_def by (simp add: ilog2_def)
  then have "(2::rat) powi ilog2 x = 1 / 2 ^ L"
    by (simp add: power_int_minus_divide)
  ultimately show ?thesis by simp
qed

lemma ilog2_upper_bound:
  assumes "0 < x"
  shows "x < 2 powi (ilog2 x + 1)"
proof (cases "1 \<le> x")
  case True
  define n where "n = nat \<lfloor>x\<rfloor>"
  define F where "F = floorlog 2 n"
  from True have "1 \<le> \<lfloor>x\<rfloor>"
    by (simp add: le_floor_iff)
  then have n: "0 < n" and fx: "\<lfloor>x\<rfloor> = int n"
    unfolding n_def by simp_all
  from floorlog_bounds [OF n, of 2] have "n < 2 ^ F"
    unfolding F_def by simp
  then have "int n < 2 ^ F"
    by (metis of_nat_less_iff of_nat_numeral of_nat_power)
  then have "\<lfloor>x\<rfloor> + 1 \<le> 2 ^ F"
    using fx by linarith
  then have "rat_of_int (\<lfloor>x\<rfloor> + 1) \<le> of_int (2 ^ F)"
    by (simp only: of_int_le_iff)
  moreover have "x < of_int (\<lfloor>x\<rfloor> + 1)"
    by linarith
  ultimately have "x < 2 ^ F"
    by simp
  moreover have "ilog2 x + 1 = int F"
    using True unfolding F_def n_def by (simp add: ilog2_def)
  ultimately show ?thesis
    by (simp only: power_int_of_nat)
next
  case False
  define c where "c = \<lceil>1 / x\<rceil>"
  define L where "L = floorlog 2 (nat (c - 1))"
  from False assms have "1 < 1 / x"
    by simp
  then have c2: "2 \<le> c"
    unfolding c_def by (simp add: le_ceiling_iff)
  then have pos: "0 < nat (c - 1)"
    by simp
  then have L: "0 < L"
    unfolding L_def by (simp add: floorlog_def)
  from floorlog_bounds [OF pos, of 2] have "2 ^ (L - 1) \<le> nat (c - 1)"
    unfolding L_def by simp
  then have "int (2 ^ (L - 1)) \<le> c - 1"
    using c2 by linarith
  then have "rat_of_int (2 ^ (L - 1)) \<le> of_int (c - 1)"
    by (simp only: of_int_le_iff of_nat_power of_nat_numeral)
  moreover have "of_int (c - 1) < 1 / x"
    unfolding c_def by linarith
  ultimately have "2 ^ (L - 1) < 1 / x"
    by simp
  then have "x * 2 ^ (L - 1) < 1"
    using assms by (simp add: pos_less_divide_eq mult.commute)
  then have "x < 1 / 2 ^ (L - 1)"
    by (simp add: pos_less_divide_eq)
  moreover have "ilog2 x + 1 = - int (L - 1)"
    using False L unfolding L_def c_def by (simp add: ilog2_def)
  then have "(2::rat) powi (ilog2 x + 1) = 1 / 2 ^ (L - 1)"
    by (simp only: power_int_minus_divide power_int_of_nat)
  ultimately show ?thesis by simp
qed

lemma ilog2_upper:
  assumes "0 < x" and "x < 2 powi n"
  shows "ilog2 x < n"
proof (rule ccontr)
  assume "\<not> ilog2 x < n"
  then have "(2::rat) powi n \<le> 2 powi ilog2 x"
    by (intro power_int_increasing) simp_all
  with ilog2_lower [OF assms(1)] assms(2) show False
    by simp
qed

lemma round_half_even_le:
  assumes "t \<le> of_int N"
  shows "round_half_even t \<le> N"
proof -
  have f: "\<lfloor>t\<rfloor> \<le> N"
    using assms by (simp add: floor_le_iff)
  show ?thesis
  proof (cases "t = of_int \<lfloor>t\<rfloor>")
    case True
    then have "t - of_int \<lfloor>t\<rfloor> = 0" by simp
    then show ?thesis using f by (simp add: round_half_even_def)
  next
    case False
    then have "of_int \<lfloor>t\<rfloor> < t"
      using of_int_floor_le [of t] by linarith
    with assms have "rat_of_int \<lfloor>t\<rfloor> < of_int N"
      by linarith
    then have "\<lfloor>t\<rfloor> < N"
      by (simp only: of_int_less_iff)
    then show ?thesis
      by (simp add: round_half_even_def Let_def)
  qed
qed

lemma round_half_even_ge:
  assumes "of_int N \<le> t"
  shows "N \<le> round_half_even t"
proof -
  have "N \<le> \<lfloor>t\<rfloor>"
    using assms by (simp add: le_floor_iff)
  then show ?thesis
    by (simp add: round_half_even_def Let_def)
qed

lemma fl_bounded:
  assumes "0 \<le> x" and "x \<le> of_int M" and "M \<le> 2 ^ 52"
  shows "\<exists>y. fl x = Fin y \<and> 0 \<le> y \<and> y \<le> of_int M"
proof (cases "x = 0")
  case True
  with assms show ?thesis
    by (auto simp: fl_def round_to_double_def)
next
  case False
  with assms(1) have pos: "0 < x" by simp
  define k where "k = max (ilog2 x - 52) (- 1074)"
  define j where "j = nat (- k)"
  define t where "t = x * 2 ^ j"
  have "rat_of_int M \<le> of_int (2 ^ 52)"
    using assms(3) by (simp only: of_int_le_iff)
  with assms(2) have "x < 2 powi 53"
    by simp
  from ilog2_upper [OF pos this] have "k \<le> 0"
    unfolding k_def by simp
  then have k: "k = - int j"
    unfolding j_def by simp
  then have p: "(2::rat) powi k = 1 / 2 ^ j"
    by (simp only: power_int_minus_divide power_int_of_nat)
  have q: "x / 2 powi k = t"
    unfolding p t_def by simp
  have "0 \<le> t"
    unfolding t_def using assms(1) by simp
  then have "rat_of_int 0 \<le> t"
    by simp
  then have lo: "0 \<le> round_half_even t"
    by (rule round_half_even_ge)
  have "t \<le> of_int M * 2 ^ j"
    unfolding t_def using assms(2) by (simp add: mult_right_mono)
  then have "t \<le> of_int (M * 2 ^ j)"
    by simp
  then have hi: "round_half_even t \<le> M * 2 ^ j"
    by (rule round_half_even_le)
  define y where "y = rat_of_int (round_half_even t) * (1 / 2 ^ j)"
  have y0: "0 \<le> y"
    unfolding y_def using lo by simp
  have "rat_of_int (round_half_even t) \<le> of_int (M * 2 ^ j)"
    using hi by (simp only: of_int_le_iff)
  then have "rat_of_int (round_half_even t) \<le> of_int M * 2 ^ j"
    by simp
  then have yM: "y \<le> of_int M"
    unfolding y_def by (simp add: pos_divide_le_eq)
  have r: "round_to_double x = y"
    using False pos unfolding round_to_double_def Let_def y_def
    by (simp only: abs_of_pos k_def [symmetric] q if_False) (simp only: p)
  have "y \<le> of_int (2 ^ 52)"
    using yM assms(3) by (meson of_int_le_iff order_trans)
  then have "y < 2 ^ 1024"
    by simp
  with y0 have "fl x = Fin y"
    unfolding fl_def Let_def r by simp
  with y0 yM show ?thesis by blast
qed

lemma py_round2_bounded:
  assumes "0 \<le> y" and "y \<le> 100"
  shows "\<exists>z. py_round2 (Fin y) = Fin z \<and> 0 \<le> z \<and> z \<le> 100"
proof -
  define c where "c = round_half_even (y * 100)"
  from assms(1) have "rat_of_int 0 \<le> y * 100"
    by simp
  then have c0: "0 \<le> c"
    unfolding c_def by (rule round_half_even_ge)
  from assms(2) have "y * 100 \<le> rat_of_int 10000"
    by simp
  then have c1: "c \<le> 10000"
    unfolding c_def by (rule round_half_even_le)
  from c0 have a: "0 \<le> rat_of_int c / 100"
    by simp
  from c1 have "rat_of_int c \<le> 10000"
    by linarith
  then have b: "rat_of_int c / 100 \<le> of_int 100"
    by simp
  from fl_bounded [OF a b] show ?thesis
    by (simp add: c_def)
qed

lemma confidence_bounded:
  assumes "0 \<le> p" and "p \<le> 1"
  shows "\<exists>z. py_round2 (py_mul (Fin p) (Fin 100)) = Fin z \<and> 0 \<le> z \<and> z \<le> 100"
    and "\<exists>z. py_round2 (py_mul (py_sub (Fin 1) (Fin p)) (Fin 100)) = Fin z \<and> 0 \<le> z \<and> z \<le> 100"
proof -
  have scale: "\<exists>z. py_round2 (py_mul (Fin s) (Fin 100)) = Fin z \<and> 0 \<le> z \<and> z \<le> 100"
    if "0 \<le> s" and "s \<le> 1" for s
  proof -
    from that have "0 \<le> s * 100" and "s * 100 \<le> of_int 100"
      by simp_all
    from fl_bounded [OF this] obtain y where "fl (s * 100) = Fin y" "0 \<le> y" "y \<le> 100"
      by auto
    with py_round2_bounded [of y] show ?thesis
      by simp
  qed
  from scale [OF assms] show "\<exists>z. py_round2 (py_mul (Fin p) (Fin 100)) = Fin z \<and> 0 \<le> z \<and> z \<le> 100" .
  from assms have "0 \<le> 1 - p" and "1 - p \<le> of_int 1"
    by simp_all
  from fl_bounded [OF this] obtain s where s: "fl (1 - p) = Fin s" "0 \<le> s" "s \<le> 1"
    by auto
  from scale [OF s(2,3)] s(1)
  show "\<exists>z. py_round2 (py_mul (py_sub (Fin 1) (Fin p)) (Fin 100)) = Fin z \<and> 0 \<le> z \<and> z \<le> 100"
    by simp
qed

section \<open>The validation loop\<close>

lemma accepted_value_dict:
  "accepted_value sf (JDict kv) g = Some x \<longleftrightarrow>
     (\<exists>v. map_of kv g = Some v \<and> py_float sf v = Inr x \<and> \<not> py_lt x (Fin 0))"
  by (auto simp: accepted_value_def convert_field_def split: option.splits sum.splits)

lemma valid_entry_dict:
  "valid_entry sf (JDict kv) g \<longleftrightarrow>
     (\<exists>v x. map_of kv g = Some v \<and> py_float sf v = Inr x \<and> \<not> py_lt x (Fin 0))"
  using accepted_value_dict [of sf kv g] by (auto simp: valid_entry_def)

lemma valid_entryD:
  assumes "valid_entry sf d g"
  obtains x where "py_contains d g = Inr True" "convert_field sf d g = Inr x"
    "accepted_value sf d g = Some x"
  using assms
  by (auto simp: valid_entry_def accepted_value_def split: sum.splits bool.splits)

lemma accepted_value_not_negative:
  "accepted_value sf d g = Some x \<Longrightarrow> \<not> py_lt x (Fin 0)"
  by (auto simp: accepted_value_def convert_field_def split: sum.splits bool.splits if_splits)

lemma validate_fields_valid_head:
  assumes "accepted_value sf d g = Some x"
  shows "validate_fields sf (g # rest) d vm = validate_fields sf rest d (AList.update g x vm)"
  using assms by (auto simp: accepted_value_def split: sum.splits bool.splits)

lemma validate_fields_invalid_head:
  assumes "\<not> valid_entry sf d f"
  shows "validate_fields sf (f # rest) d vm = validate_fields sf [f] d []"
  using assms by (auto simp: valid_entry_def accepted_value_def split: sum.splits bool.splits)

lemma validate_fields_prefix:
  assumes "\<forall>g\<in>set pre. valid_entry sf d g"
  shows "\<exists>vm'. validate_fields sf (pre @ rest) d vm = validate_fields sf rest d vm'
           \<and> map_of vm' = (\<lambda>g. if g \<in> set pre then accepted_value sf d g else map_of vm g)
           \<and> (distinct (map fst vm) \<longrightarrow> distinct (map fst vm'))"
  using assms
proof (induction pre arbitrary: vm)
  case Nil
  then show ?case by auto
next
  case (Cons g pre)
  from Cons.prems obtain x where x: "accepted_value sf d g = Some x"
    by (auto elim: valid_entryD)
  from Cons.prems have pre: "\<forall>h\<in>set pre. valid_entry sf d h" by simp
  obtain vm' where vm0: "validate_fields sf (pre @ rest) d (AList.update g x vm)
        = validate_fields sf rest d vm'
      \<and> map_of vm' = (\<lambda>h. if h \<in> set pre then accepted_value sf d h
                          else map_of (AList.update g x vm) h)
      \<and> (distinct (map fst (AList.update g x vm)) \<longrightarrow> distinct (map fst vm'))"
    using Cons.IH [OF pre, of "AList.update g x vm"] ..
  then have vm': "validate_fields sf (pre @ rest) d (AList.update g x vm)
        = validate_fields sf rest d vm'"
      "map_of vm' = (\<lambda>h. if h \<in> set pre then accepted_value sf d h
                          else map_of (AList.update g x vm) h)"
      "distinct (map fst (AList.update g x vm)) \<longrightarrow> distinct (map fst vm')"
    by simp_all
  have "validate_fields sf ((g # pre) @ rest) d vm = validate_fields sf rest d vm'"
    using validate_fields_valid_head [OF x] vm'(1) by simp
  moreover have "map_of vm' = (\<lambda>h. if h \<in> set (g # pre) then accepted_value sf d h else map_of vm h)"
    using vm'(2) x by (auto simp: update_conv fun_eq_iff)
  moreover have "distinct (map fst vm) \<longrightarrow> distinct (map fst vm')"
    using vm'(3) by (simp add: distinct_update)
  ultimately show ?case by blast
qed

lemma validate_fields_invalid_not_Completed:
  assumes "\<not> valid_entry sf d f"
  shows "validate_fields sf (f # rest) d vm \<noteq> Completed m"
  using assms by (auto simp: valid_entry_def accepted_value_def split: sum.splits bool.splits)

lemma validate_fields_Completed_valid:
  "validate_fields sf fs d vm = Completed m \<Longrightarrow> \<forall>g\<in>set fs. valid_entry sf d g"
proof (induction fs arbitrary: vm)
  case Nil
  then show ?case by simp
next
  case (Cons g fs)
  have g: "valid_entry sf d g"
    using Cons.prems validate_fields_invalid_not_Completed by blast
  then obtain x where "accepted_value sf d g = Some x"
    by (auto elim: valid_entryD)
  with Cons.prems have "validate_fields sf fs d (AList.update g x vm) = Completed m"
    by (simp only: validate_fields_valid_head)
  from Cons.IH [OF this] g show ?case by simp
qed

lemma validate_fields_all_valid:
  assumes "\<forall>g\<in>set fs. valid_entry sf d g"
  shows "\<exists>m. validate_fields sf fs d [] = Completed m
           \<and> map_of m = (\<lambda>g. if g \<in> set fs then accepted_value sf d g else None)
           \<and> distinct (map fst m) \<and> fst ` set m = set fs"
proof -
  obtain m where m0: "validate_fields sf (fs @ []) d [] = validate_fields sf [] d m
        \<and> map_of m = (\<lambda>g. if g \<in> set fs then accepted_value sf d g else map_of [] g)
        \<and> (distinct (map fst ([] :: metrics)) \<longrightarrow> distinct (map fst m))"
    using validate_fields_prefix [OF assms, of "[]" "[]"] ..
  then have m: "validate_fields sf fs d [] = Completed m"
      "map_of m = (\<lambda>g. if g \<in> set fs then accepted_value sf d g else None)"
      "distinct (map fst m)"
    by (simp_all cong: if_cong)
  have "dom (map_of m) = set fs"
    using assms by (auto simp: m(2) valid_entry_def dom_def)
  then have "fst ` set m = set fs"
    by (simp add: dom_map_of_conv_image_fst)
  with m show ?thesis by blast
qed

lemma validate_fields_first_failure:
  assumes "\<forall>g\<in>set pre. valid_entry sf d g" and "\<not> valid_entry sf d f"
  shows "validate_fields sf (pre @ f # rest) d vm = validate_fields sf [f] d []"
proof -
  obtain vm' where "validate_fields sf (pre @ f # rest) d vm = validate_fields sf (f # rest) d vm'
        \<and> map_of vm' = (\<lambda>g. if g \<in> set pre then accepted_value sf d g else map_of vm g)
        \<and> (distinct (map fst vm) \<longrightarrow> distinct (map fst vm'))"
    using validate_fields_prefix [OF assms(1), of "f # rest" vm] ..
  then show ?thesis using validate_fields_invalid_head [OF assms(2)] by simp
qed

lemma validate_fields_cong:
  assumes "\<forall>g\<in>set fs. py_contains d g = py_contains d' g \<and> convert_field sf d g = convert_field sf d' g"
  shows "validate_fields sf fs d vm = validate_fields sf fs d' vm"
  using assms by (induction fs arbitrary: vm) (auto split: sum.splits bool.splits)

lemma validate_fields_Returned:
  "validate_fields sf fs d vm = Returned r \<Longrightarrow> \<exists>msg. r = Response 400 (ValidationFailure msg)"
  by (induction fs arbitrary: vm) (auto split: sum.splits bool.splits if_splits)


lemma single_field_invalid:
  assumes "map_of kv f = Some v"
    and "(\<exists>e. py_float sf v = Inl e \<and> (exc_type e = ValueError \<or> exc_type e = TypeError))
       \<or> (\<exists>x. py_float sf v = Inr x \<and> py_lt x (Fin 0))"
  shows "validate_fields sf [f] (JDict kv) [] =
           Returned (Response 400 (ValidationFailure (''Invalid numeric data: '' @ f)))"
  using assms by (auto simp: convert_field_def)

lemma single_field_raises:
  assumes "py_contains d f = Inl e
         \<or> (py_contains d f = Inr True \<and> convert_field sf d f = Inl e
            \<and> exc_type e \<noteq> ValueError \<and> exc_type e \<noteq> TypeError)"
  shows "validate_fields sf [f] d [] = Raised e" and "\<not> valid_entry sf d f"
  using assms by (auto simp: valid_entry_def accepted_value_def)

section \<open>The score-submission operation\<close>

lemma inference_body_Completed:
  assumes "validate_fields sf (feature_names w) d [] = Completed m"
  shows "predict_calls w sf (Inr d) = [m]"
    and "handle_inference w sf (Inr d) =
           (case predict w m of
              Inl e \<Rightarrow> Response 500 (ServerError (exc_str e))
            | Inr (c, p) \<Rightarrow> success_response c p)"
  using assms
  by (auto simp: predict_calls_def handle_inference_def inference_body_def split: sum.splits)

lemma handle_inference_success:
  assumes "handle_inference w sf req = Response code (PredictionSuccess out)"
  obtains d m c p where "req = Inr d" "validate_fields sf (feature_names w) d [] = Completed m"
    "predict w m = Inr (c, p)" "success_response c p = Response code (PredictionSuccess out)"
proof (cases req)
  case (Inl e)
  with assms show ?thesis
    by (simp add: handle_inference_def inference_body_def)
next
  case (Inr d)
  show ?thesis
  proof (cases "validate_fields sf (feature_names w) d []")
    case (Completed m)
    show ?thesis
    proof (cases "predict w m")
      case (Inl e)
      with assms Inr Completed show ?thesis
        by (simp add: inference_body_Completed(2))
    next
      case (Inr cp)
      obtain c p where "cp = (c, p)" by (cases cp)
      with assms \<open>req = Inr d\<close> Completed Inr that show ?thesis
        by (simp add: inference_body_Completed(2))
    qed
  next
    case (Returned r)
    from validate_fields_Returned [OF this] assms Inr Returned show ?thesis
      by (auto simp: handle_inference_def inference_body_def)
  next
    case (Raised e)
    with assms Inr show ?thesis
      by (simp add: handle_inference_def inference_body_def)
  qed
qed

lemma inference_body_not_Completed:
  assumes "\<forall>m. validate_fields sf (feature_names w) d [] \<noteq> Completed m"
  shows "predict_calls w sf (Inr d) = []"
    and "(\<exists>msg. handle_inference w sf (Inr d) = Response 400 (ValidationFailure msg))
       \<or> (\<exists>t. handle_inference w sf (Inr d) = Response 500 (ServerError t))"
  using assms validate_fields_Returned [of sf "feature_names w" d "[]"]
  by (auto simp: predict_calls_def handle_inference_def inference_body_def split: loop_exit.splits)

lemma inference_body_first_failure:
  assumes "feature_names w = pre @ f # rest"
    and "\<forall>g\<in>set pre. valid_entry sf d g"
    and "\<not> valid_entry sf d f"
  shows "inference_body w sf (Inr d) = inference_body (w\<lparr>feature_names := [f]\<rparr>) sf (Inr d)"
    and "predict_calls w sf (Inr d) = []"
proof -
  have eq: "validate_fields sf (feature_names w) d [] = validate_fields sf [f] d []"
    using validate_fields_first_failure [OF assms(2,3)] assms(1) by simp
  have nc: "\<forall>m. validate_fields sf [f] d [] \<noteq> Completed m"
    using validate_fields_invalid_not_Completed [OF assms(3)] by blast
  show "inference_body w sf (Inr d) = inference_body (w\<lparr>feature_names := [f]\<rparr>) sf (Inr d)"
    using eq nc by (simp add: inference_body_def split: loop_exit.splits)
  show "predict_calls w sf (Inr d) = []"
    using eq nc by (intro inference_body_not_Completed(1)) simp
qed

lemma handle_inference_single:
  assumes "feature_names w = pre @ f # rest"
    and "\<forall>g\<in>set pre. valid_entry sf d g"
    and "validate_fields sf [f] d [] = Returned r"
  shows "handle_inference w sf (Inr d) = r" and "predict_calls w sf (Inr d) = []"
proof -
  have nv: "\<not> valid_entry sf d f"
  proof
    assume "valid_entry sf d f"
    then have "\<forall>g\<in>set [f]. valid_entry sf d g" by simp
    from validate_fields_all_valid [OF this] assms(3) show False by auto
  qed
  have "validate_fields sf (feature_names w) d [] = Returned r"
    using validate_fields_first_failure [OF assms(2) nv] assms(1,3) by simp
  then show "handle_inference w sf (Inr d) = r" and "predict_calls w sf (Inr d) = []"
    by (simp_all add: handle_inference_def predict_calls_def inference_body_def)
qed

lemma handle_inference_raises:
  assumes "feature_names w = pre @ f # rest"
    and "\<forall>g\<in>set pre. valid_entry sf d g"
    and "py_contains d f = Inl e
       \<or> (py_contains d f = Inr True \<and> convert_field sf d f = Inl e
          \<and> exc_type e \<noteq> ValueError \<and> exc_type e \<noteq> TypeError)"
  shows "handle_inference w sf (Inr d) = Response 500 (ServerError (exc_str e))"
    and "predict_calls w sf (Inr d) = []"
proof -
  have "validate_fields sf (feature_names w) d [] = Raised e"
    using validate_fields_first_failure [OF assms(2) single_field_raises(2) [OF assms(3)]]
      single_field_raises(1) [OF assms(3)] assms(1) by simp
  then show "handle_inference w sf (Inr d) = Response 500 (ServerError (exc_str e))"
    and "predict_calls w sf (Inr d) = []"
    by (simp_all add: handle_inference_def predict_calls_def inference_body_def)
qed

lemma handle_inference_cong:
  assumes "\<forall>g\<in>set (feature_names w).
             py_contains d g = py_contains d' g \<and> convert_field sf d g = convert_field sf d' g"
  shows "inference_body w sf (Inr d) = inference_body w sf (Inr d')"
  using validate_fields_cong [OF assms, of "[]"] by (simp add: inference_body_def)

lemma predict_calls_cases:
  assumes "m \<in> set (predict_calls w sf req)"
  obtains d where "req = Inr d" "validate_fields sf (feature_names w) d [] = Completed m"
  using assms
  by (auto simp: predict_calls_def inference_body_def split: sum.splits loop_exit.splits)

lemma predict_calls_names:
  assumes "m \<in> set (predict_calls w sf req)"
  shows "fst ` set m = set (feature_names w)" and "distinct (map fst m)"
    and "map_of m g = (if g \<in> set (feature_names w) then accepted_value sf (projr req) g else None)"
proof -
  from assms obtain d where d: "req = Inr d"
      "validate_fields sf (feature_names w) d [] = Completed m"
    by (rule predict_calls_cases)
  from validate_fields_Completed_valid [OF d(2)]
  have "\<forall>g\<in>set (feature_names w). valid_entry sf d g" .
  from validate_fields_all_valid [OF this] d(2)
  show "fst ` set m = set (feature_names w)" and "distinct (map fst m)"
    and "map_of m g = (if g \<in> set (feature_names w) then accepted_value sf (projr req) g else None)"
    by (auto simp: d(1))
qed

lemma predict_argument_not_negative:
  assumes "m \<in> set (predict_calls w sf req)" and "(k, x) \<in> set m"
  shows "\<not> py_lt x (Fin 0)"
proof -
  from predict_calls_names(2) [OF assms(1)] assms(2) have "map_of m k = Some x"
    by simp
  with predict_calls_names(3) [OF assms(1), of k]
  have "accepted_value sf (projr req) k = Some x"
    by (simp split: if_splits)
  then show ?thesis by (rule accepted_value_not_negative)
qed

lemma non_container_body:
  assumes "feature_names w = f # rest"
    and "d = JNull \<or> (\<exists>b. d = JBool b) \<or> (\<exists>i. d = JInt i) \<or> (\<exists>x. d = JFloat x)"
  shows "inference_body w sf (Inr d) =
           (Inl (PyExc TypeError (''argument of type '' @ quoted (type_name d) @ '' is not iterable'')), [])"
  using assms by (auto simp: inference_body_def)

lemma list_or_str_body:
  assumes "feature_names w = f # rest"
    and "(\<exists>xs. d = JList xs) \<or> (\<exists>s. d = JStr s)"
  shows "inference_body w sf (Inr d) =
           (Inr (Response 400 (ValidationFailure
              ((if py_contains d f = Inr True then ''Invalid numeric data: '' else ''Missing: '') @ f))), [])"
proof -
  from assms(2) obtain b where b: "py_contains d f = Inr b"
    by auto
  from assms(2) have c: "\<exists>t. convert_field sf d f = Inl (PyExc TypeError t)"
    by (auto simp: convert_field_def)
  show ?thesis
  proof (cases b)
    case True
    with b c assms(1) show ?thesis
      by (auto simp: inference_body_def)
  next
    case False
    with b assms(1) show ?thesis
      by (simp add: inference_body_def)
  qed
qed

subsection \<open>Valid submissions\<close>

text \<open>
  Claim C1. For a submission that is a JSON object in which every required feature is
  present with a value that \<^verbatim>\<open>float\<close> converts to a float that is not negative: when
  the model wrapper, on the call made, returns class 1 with probability \<open>p\<close>, the
  response is the success result with label Benign, \<open>is_benign\<close> true and confidence
  \<^verbatim>\<open>round(p * 100, 2)\<close>; when it returns class 0, the label is Malignant, \<open>is_benign\<close> is
  false and the confidence is \<^verbatim>\<open>round((1.0 - p) * 100, 2)\<close>.
\<close>

theorem C1_fully_valid_submission:
  assumes "\<forall>f\<in>set (feature_names w).
             \<exists>v x. map_of kv f = Some v \<and> py_float sf v = Inr x \<and> \<not> py_lt x (Fin 0)"
    and "\<forall>m\<in>set (predict_calls w sf (Inr (JDict kv))). predict w m = Inr (c, p)"
  shows "(c = 1 \<longrightarrow> handle_inference w sf (Inr (JDict kv)) =
            Response 200 (PredictionSuccess
              \<lparr> label = ''Benign'', is_benign = True,
                confidence = py_round2 (py_mul p (Fin 100)),
                description = ''Analysis complete: The tumor is likely BENIGN.'',
                disclaimer = ''For academic purposes only. Seek medical advice for diagnosis.'' \<rparr>))
       \<and> (c = 0 \<longrightarrow> handle_inference w sf (Inr (JDict kv)) =
            Response 200 (PredictionSuccess
              \<lparr> label = ''Malignant'', is_benign = False,
                confidence = py_round2 (py_mul (py_sub (Fin 1) p) (Fin 100)),
                description = ''Analysis complete: The tumor is likely MALIGNANT.'',
                disclaimer = ''For academic purposes only. Seek medical advice for diagnosis.'' \<rparr>))"
proof -
  have "\<forall>g\<in>set (feature_names w). valid_entry sf (JDict kv) g"
    using assms(1) by (simp add: valid_entry_dict)
  from validate_fields_all_valid [OF this]
  obtain m where m: "validate_fields sf (feature_names w) (JDict kv) [] = Completed m"
    by blast
  have "predict w m = Inr (c, p)"
    using assms(2) inference_body_Completed(1) [OF m] by simp
  then have "handle_inference w sf (Inr (JDict kv)) = success_response c p"
    using inference_body_Completed(2) [OF m] by simp
  then show ?thesis
    by (simp add: success_response_def)
qed

text \<open>
  The theorem at two concrete submissions, each with two valid features and a key that
  is not a feature. For the first the wrapper returns class 1 with the double nearest
  to 0.92, and the confidence is 92; for the second it returns class 0 with 0.75, and
  the confidence is 25.
\<close>

theorem C1_witness:
  "handle_inference demo_detector ascii_float
     (Inr (JDict [(''radius_mean'', JStr ''12.5''), (''texture_mean'', JInt 10), (''id'', JNull)])) =
   Response 200 (PredictionSuccess
     \<lparr> label = ''Benign'', is_benign = True, confidence = Fin 92,
       description = ''Analysis complete: The tumor is likely BENIGN.'',
       disclaimer = ''For academic purposes only. Seek medical advice for diagnosis.'' \<rparr>)
   \<and> handle_inference demo_detector ascii_float
     (Inr (JDict [(''radius_mean'', JInt 20), (''texture_mean'', JInt 10), (''id'', JNull)])) =
   Response 200 (PredictionSuccess
     \<lparr> label = ''Malignant'', is_benign = False, confidence = Fin 25,
       description = ''Analysis complete: The tumor is likely MALIGNANT.'',
       disclaimer = ''For academic purposes only. Seek medical advice for diagnosis.'' \<rparr>)"
proof -
  let ?kv = "[(''radius_mean'', JStr ''12.5''), (''texture_mean'', JInt 10), (''id'', JNull)]"
  let ?kv' = "[(''radius_mean'', JInt 20), (''texture_mean'', JInt 10), (''id'', JNull)]"
  have valid: "\<forall>f\<in>set (feature_names demo_detector).
      \<exists>v x. map_of ?kv f = Some v \<and> py_float ascii_float v = Inr x \<and> \<not> py_lt x (Fin 0)"
    by (simp add: demo_detector_def parse_eval fl_eval)
  have model: "\<forall>m\<in>set (predict_calls demo_detector ascii_float (Inr (JDict ?kv))).
      predict demo_detector m = Inr (1, Fin (8286623314361713 / 2 ^ 53))"
    by (simp add: handler_eval parse_eval fl_eval)
  have conf: "py_round2 (py_mul (Fin (8286623314361713 / 2 ^ 53)) (Fin 100)) = Fin 92"
    by (simp add: fl_eval)
  have valid': "\<forall>f\<in>set (feature_names demo_detector).
      \<exists>v x. map_of ?kv' f = Some v \<and> py_float ascii_float v = Inr x \<and> \<not> py_lt x (Fin 0)"
    by (simp add: demo_detector_def fl_eval)
  have model': "\<forall>m\<in>set (predict_calls demo_detector ascii_float (Inr (JDict ?kv'))).
      predict demo_detector m = Inr (0, Fin (3 / 4))"
    by (simp add: handler_eval fl_eval)
  have conf': "py_round2 (py_mul (py_sub (Fin 1) (Fin (3 / 4))) (Fin 100)) = Fin 25"
    by (simp add: fl_eval)
  from C1_fully_valid_submission [OF valid model] conf
    C1_fully_valid_submission [OF valid' model'] conf'
  show ?thesis
    by simp
qed

subsection \<open>Missing and invalid fields\<close>




text \<open>
  Claim C3 as stated fails: the message does not always name the field whose value is
  invalid. Here \<^verbatim>\<open>texture_mean\<close> holds \<^verbatim>\<open>"abc"\<close>, which \<^verbatim>\<open>float\<close> rejects, and
  \<^verbatim>\<open>radius_mean\<close>, which comes first in the feature list, is absent: the loop returns
  at \<^verbatim>\<open>radius_mean\<close>, and the message names that field only.
\<close>

theorem C3_counterexample:
  "''texture_mean'' \<in> set (feature_names demo_detector)
   \<and> map_of [(''texture_mean'', JStr ''abc'')] ''texture_mean'' = Some (JStr ''abc'')
   \<and> py_float ascii_float (JStr ''abc'') = Inl (PyExc ValueError ''could not convert string to float'')
   \<and> handle_inference demo_detector ascii_float (Inr (JDict [(''texture_mean'', JStr ''abc'')])) =
       Response 400 (ValidationFailure ''Missing: radius_mean'')
   \<and> \<not> sublist ''texture_mean'' ''Missing: radius_mean''"
proof -
  have "\<not> sublist ''texture_mean'' ''Missing: radius_mean''"
    by code_simp
  then show ?thesis
    by (simp add: handler_eval parse_eval)
qed

text \<open>
  Claim C3, as the code has it. When a required feature \<open>f\<close> is present with a value for
  which \<^verbatim>\<open>float\<close> raises \<^verbatim>\<open>ValueError\<close> or \<^verbatim>\<open>TypeError\<close>, or that converts to a negative
  float, and every required feature before \<open>f\<close> in the list is present with a value
  that converts to a float that is not negative, the response is 400 with the message
  \<^verbatim>\<open>Invalid numeric data: f\<close>, and \<^verbatim>\<open>predict\<close> is not called.
\<close>

theorem C3_invalid_field:
  assumes "feature_names w = pre @ f # rest"
    and "\<forall>g\<in>set pre. \<exists>v x. map_of kv g = Some v \<and> py_float sf v = Inr x \<and> \<not> py_lt x (Fin 0)"
    and "map_of kv f = Some v"
    and "(\<exists>e. py_float sf v = Inl e \<and> (exc_type e = ValueError \<or> exc_type e = TypeError))
       \<or> (\<exists>x. py_float sf v = Inr x \<and> py_lt x (Fin 0))"
  shows "handle_inference w sf (Inr (JDict kv)) =
           Response 400 (ValidationFailure (''Invalid numeric data: '' @ f))
       \<and> predict_calls w sf (Inr (JDict kv)) = []"
proof -
  have "\<forall>g\<in>set pre. valid_entry sf (JDict kv) g"
    using assms(2) by (simp add: valid_entry_dict)
  from handle_inference_single [OF assms(1) this single_field_invalid [OF assms(3,4)]]
  show ?thesis by simp
qed

text \<open>
  The theorem at two submissions with \<^verbatim>\<open>radius_mean\<close> valid: \<^verbatim>\<open>texture_mean\<close> holds a text
  that is no float literal, then a negative number.
\<close>

theorem C3_witness:
  "handle_inference demo_detector ascii_float
     (Inr (JDict [(''radius_mean'', JInt 14), (''texture_mean'', JStr ''abc'')])) =
     Response 400 (ValidationFailure ''Invalid numeric data: texture_mean'')
   \<and> handle_inference demo_detector ascii_float
     (Inr (JDict [(''radius_mean'', JInt 14), (''texture_mean'', JStr ''-0.5'')])) =
     Response 400 (ValidationFailure ''Invalid numeric data: texture_mean'')"
proof -
  let ?kv1 = "[(''radius_mean'', JInt 14), (''texture_mean'', JStr ''abc'')]"
  let ?kv2 = "[(''radius_mean'', JInt 14), (''texture_mean'', JStr ''-0.5'')]"
  have split: "feature_names demo_detector = [''radius_mean''] @ ''texture_mean'' # []"
    by (simp add: demo_detector_def)
  have before1: "\<forall>g\<in>set [''radius_mean''].
      \<exists>v x. map_of ?kv1 g = Some v \<and> py_float ascii_float v = Inr x \<and> \<not> py_lt x (Fin 0)"
    by (simp add: fl_eval)
  have before2: "\<forall>g\<in>set [''radius_mean''].
      \<exists>v x. map_of ?kv2 g = Some v \<and> py_float ascii_float v = Inr x \<and> \<not> py_lt x (Fin 0)"
    by (simp add: fl_eval)
  have bad1: "(\<exists>e. py_float ascii_float (JStr ''abc'') = Inl e
                 \<and> (exc_type e = ValueError \<or> exc_type e = TypeError))
            \<or> (\<exists>x. py_float ascii_float (JStr ''abc'') = Inr x \<and> py_lt x (Fin 0))"
    by (simp add: parse_eval)
  have bad2: "(\<exists>e. py_float ascii_float (JStr ''-0.5'') = Inl e
                 \<and> (exc_type e = ValueError \<or> exc_type e = TypeError))
            \<or> (\<exists>x. py_float ascii_float (JStr ''-0.5'') = Inr x \<and> py_lt x (Fin 0))"
    by (simp add: parse_eval fl_eval)
  have here1: "map_of ?kv1 ''texture_mean'' = Some (JStr ''abc'')" by simp
  have here2: "map_of ?kv2 ''texture_mean'' = Some (JStr ''-0.5'')" by simp
  from C3_invalid_field [OF split before1 here1 bad1] C3_invalid_field [OF split before2 here2 bad2]
  show ?thesis by simp
qed

text \<open>
  The inner \<^verbatim>\<open>except\<close> clause names \<^verbatim>\<open>ValueError\<close> and \<^verbatim>\<open>TypeError\<close> only. An integer too
  large for a double makes \<^verbatim>\<open>float\<close> raise \<^verbatim>\<open>OverflowError\<close>, which reaches the outer
  clause: the response is 500, not 400.
\<close>

lemma huge_int_is_server_error:
  "handle_inference demo_detector ascii_float
     (Inr (JDict [(''radius_mean'', JInt huge_int), (''texture_mean'', JInt 10)])) =
   Response 500 (ServerError ''int too large to convert to float'')"
proof -
  let ?d = "JDict [(''radius_mean'', JInt huge_int), (''texture_mean'', JInt 10)]"
  let ?e = "PyExc OverflowError ''int too large to convert to float''"
  have fs: "feature_names demo_detector = [] @ ''radius_mean'' # [''texture_mean'']"
    by (simp add: demo_detector_def)
  have "convert_field ascii_float ?d ''radius_mean'' = Inl ?e"
    by (simp add: convert_field_def fl_huge_int)
  then have "py_contains ?d ''radius_mean'' = Inl ?e
       \<or> (py_contains ?d ''radius_mean'' = Inr True \<and> convert_field ascii_float ?d ''radius_mean'' = Inl ?e
          \<and> exc_type ?e \<noteq> ValueError \<and> exc_type ?e \<noteq> TypeError)"
    by simp
  from handle_inference_raises(1) [OF fs _ this] show ?thesis
    by simp
qed

subsection \<open>The vector passed to the model wrapper\<close>

text \<open>
  Claim C4 at a submission whose \<^verbatim>\<open>radius_mean\<close> is the text \<^verbatim>\<open>"nan"\<close>: \<^verbatim>\<open>float\<close> gives a
  NaN, the test \<^verbatim>\<open>val < 0\<close> is false for it, and \<^verbatim>\<open>predict\<close> is called with a vector that
  holds the NaN, a value that is not greater than or equal to 0.
\<close>

theorem C4_nan_reaches_predict:
  "predict_calls demo_detector ascii_float
     (Inr (JDict [(''radius_mean'', JStr ''nan''), (''texture_mean'', JInt 10)])) =
     [[(''radius_mean'', NaN), (''texture_mean'', Fin 10)]]
   \<and> \<not> py_le (Fin 0) NaN"
  by (simp add: handler_eval parse_eval fl_eval)

subsection \<open>The confidence\<close>

text \<open>
  Claim C5. For every success response of the score-submission operation, when the
  probability that the model wrapper returned on the call made is a number between 0
  and 1, the confidence in the response is a number between 0 and 100.
\<close>

theorem C5_confidence_range:
  assumes "handle_inference w sf req = Response code (PredictionSuccess out)"
    and "\<forall>m\<in>set (predict_calls w sf req). \<exists>c p. predict w m = Inr (c, Fin p) \<and> 0 \<le> p \<and> p \<le> 1"
  shows "\<exists>y. confidence out = Fin y \<and> 0 \<le> y \<and> y \<le> 100"
proof -
  from assms(1) obtain d m c q where req: "req = Inr d"
      and m: "validate_fields sf (feature_names w) d [] = Completed m"
      and cq: "predict w m = Inr (c, q)"
      and out: "success_response c q = Response code (PredictionSuccess out)"
    by (rule handle_inference_success)
  from m have "m \<in> set (predict_calls w sf req)"
    by (simp add: req inference_body_Completed(1))
  with assms(2) cq obtain p where p: "q = Fin p" "0 \<le> p" "p \<le> 1"
    by fastforce
  from out have "confidence out =
      py_round2 (py_mul (if c = 1 then Fin p else py_sub (Fin 1) (Fin p)) (Fin 100))"
    by (auto simp: success_response_def p(1))
  with confidence_bounded [OF p(2,3)] show ?thesis
    by (cases "c = 1") simp_all
qed

text \<open>
  The theorem at a valid submission for which the wrapper returns class 0 with
  probability 0.75: the confidence is 25.
\<close>

theorem C5_witness:
  "handle_inference demo_detector ascii_float
     (Inr (JDict [(''radius_mean'', JInt 20), (''texture_mean'', JStr ''10.5'')])) =
   Response 200 (PredictionSuccess
     \<lparr> label = ''Malignant'', is_benign = False, confidence = Fin 25,
       description = ''Analysis complete: The tumor is likely MALIGNANT.'',
       disclaimer = ''For academic purposes only. Seek medical advice for diagnosis.'' \<rparr>)
   \<and> (\<exists>y. Fin 25 = Fin y \<and> 0 \<le> y \<and> y \<le> 100)"
proof -
  let ?req = "Inr (JDict [(''radius_mean'', JInt 20), (''texture_mean'', JStr ''10.5'')])
    :: py_exception + json"
  let ?out = "\<lparr> label = ''Malignant'', is_benign = False, confidence = Fin 25,
       description = ''Analysis complete: The tumor is likely MALIGNANT.'',
       disclaimer = ''For academic purposes only. Seek medical advice for diagnosis.'' \<rparr>"
  have ev: "handle_inference demo_detector ascii_float ?req = Response 200 (PredictionSuccess ?out)"
    by (simp add: handler_eval parse_eval fl_eval)
  let ?m = "[(''radius_mean'', Fin 20), (''texture_mean'', Fin (21 / 2))] :: metrics"
  have calls: "predict_calls demo_detector ascii_float ?req = [?m]"
    by (simp add: handler_eval parse_eval fl_eval)
  have pr: "predict demo_detector ?m = Inr (0, Fin (3 / 4))"
    by (simp add: demo_detector_def demo_predict_def)
  have "\<exists>c p. predict demo_detector ?m = Inr (c, Fin p) \<and> 0 \<le> p \<and> p \<le> 1"
    by (rule exI [of _ 0], rule exI [of _ "3 / 4"]) (simp add: pr)
  then have prob: "\<forall>m\<in>set (predict_calls demo_detector ascii_float ?req).
      \<exists>c p. predict demo_detector m = Inr (c, Fin p) \<and> 0 \<le> p \<and> p \<le> 1"
    by (simp only: calls list.set ball_simps)
  from C5_confidence_range [OF ev prob] ev show ?thesis
    by simp
qed

subsection \<open>Exceptions\<close>

text \<open>
  Claim C8. When an exception \<open>e\<close> that the inner \<^verbatim>\<open>except\<close> clause does not catch is
  raised in the validation loop (by the membership test, or by the inner block with a
  class other than \<^verbatim>\<open>ValueError\<close> and \<^verbatim>\<open>TypeError\<close>, at a field before which every field
  is valid), or when \<^verbatim>\<open>predict\<close> raises \<open>e\<close> on the call made, the response is 500 with
  the body \<^verbatim>\<open>{'status': 'error', 'details': str(e)}\<close>.
\<close>

theorem C8_unhandled_exception:
  assumes "(req = Inr d \<and> feature_names w = pre @ f # rest
              \<and> (\<forall>g\<in>set pre. valid_entry sf d g)
              \<and> (py_contains d f = Inl e
                 \<or> (py_contains d f = Inr True \<and> convert_field sf d f = Inl e
                    \<and> exc_type e \<noteq> ValueError \<and> exc_type e \<noteq> TypeError)))
         \<or> (\<exists>m\<in>set (predict_calls w sf req). predict w m = Inl e)"
  shows "handle_inference w sf req = Response 500 (ServerError (exc_str e))"
  using assms
proof
  assume a: "req = Inr d \<and> feature_names w = pre @ f # rest
              \<and> (\<forall>g\<in>set pre. valid_entry sf d g)
              \<and> (py_contains d f = Inl e
                 \<or> (py_contains d f = Inr True \<and> convert_field sf d f = Inl e
                    \<and> exc_type e \<noteq> ValueError \<and> exc_type e \<noteq> TypeError))"
  then have req: "req = Inr d" and fs: "feature_names w = pre @ f # rest"
    and pre: "\<forall>g\<in>set pre. valid_entry sf d g"
    and f: "py_contains d f = Inl e
         \<or> (py_contains d f = Inr True \<and> convert_field sf d f = Inl e
            \<and> exc_type e \<noteq> ValueError \<and> exc_type e \<noteq> TypeError)"
    by simp_all
  have "validate_fields sf (feature_names w) d [] = Raised e"
    using validate_fields_first_failure [OF pre single_field_raises(2) [OF f]]
      single_field_raises(1) [OF f] fs by simp
  then show ?thesis
    by (simp add: req handle_inference_def inference_body_def)
next
  assume "\<exists>m\<in>set (predict_calls w sf req). predict w m = Inl e"
  then obtain m where m: "m \<in> set (predict_calls w sf req)" and e: "predict w m = Inl e"
    by blast
  from m obtain d where "req = Inr d" "validate_fields sf (feature_names w) d [] = Completed m"
    by (rule predict_calls_cases)
  with e show ?thesis
    by (simp add: inference_body_Completed(2))
qed

text \<open>
  The theorem at a wrapper whose \<^verbatim>\<open>predict\<close> raises, and at a submission whose second
  feature is an integer too large for a double.
\<close>

theorem C8_witness:
  "handle_inference failing_detector ascii_float (Inr (JDict [(''radius_mean'', JInt 14)])) =
     Response 500 (ServerError ''model is not loaded'')
   \<and> handle_inference demo_detector ascii_float
       (Inr (JDict [(''radius_mean'', JInt 14), (''texture_mean'', JInt huge_int)])) =
     Response 500 (ServerError ''int too large to convert to float'')"
proof -
  let ?r1 = "Inr (JDict [(''radius_mean'', JInt 14)]) :: py_exception + json"
  let ?d2 = "JDict [(''radius_mean'', JInt 14), (''texture_mean'', JInt huge_int)]"
  let ?e2 = "PyExc OverflowError ''int too large to convert to float''"
  have "\<exists>m\<in>set (predict_calls failing_detector ascii_float ?r1).
          predict failing_detector m = Inl (PyExc OtherException ''model is not loaded'')"
    by (simp add: predict_calls_def inference_body_def convert_field_def failing_detector_def fl_eval)
  then have one: "handle_inference failing_detector ascii_float ?r1 =
      Response 500 (ServerError (exc_str (PyExc OtherException ''model is not loaded'')))"
    by (intro C8_unhandled_exception disjI2)
  have pre: "\<forall>g\<in>set [''radius_mean'']. valid_entry ascii_float ?d2 g"
    by (simp add: valid_entry_def accepted_value_def convert_field_def fl_eval)
  have conv: "convert_field ascii_float ?d2 ''texture_mean'' = Inl ?e2"
    by (simp add: convert_field_def fl_huge_int)
  have "Inr ?d2 = Inr ?d2 \<and> feature_names demo_detector = [''radius_mean''] @ ''texture_mean'' # []
      \<and> (\<forall>g\<in>set [''radius_mean'']. valid_entry ascii_float ?d2 g)
      \<and> (py_contains ?d2 ''texture_mean'' = Inl ?e2
         \<or> (py_contains ?d2 ''texture_mean'' = Inr True
            \<and> convert_field ascii_float ?d2 ''texture_mean'' = Inl ?e2
            \<and> exc_type ?e2 \<noteq> ValueError \<and> exc_type ?e2 \<noteq> TypeError))"
    using pre conv by (simp add: demo_detector_def)
  then have two: "handle_inference demo_detector ascii_float (Inr ?d2) =
      Response 500 (ServerError (exc_str ?e2))"
    by (intro C8_unhandled_exception disjI1)
  from one two show ?thesis by simp
qed

text \<open>
  Claim C9 as stated fails for a body that is a JSON array or a JSON string: the
  membership test raises nothing on a \<^verbatim>\<open>list\<close> or a \<^verbatim>\<open>str\<close>, and the response is a 400
  that names the first required feature.
\<close>

theorem C9_counterexample:
  "handle_inference demo_detector ascii_float (Inr (JList [])) =
     Response 400 (ValidationFailure ''Missing: radius_mean'')
   \<and> handle_inference demo_detector ascii_float (Inr (JStr ''radius_mean'')) =
     Response 400 (ValidationFailure ''Invalid numeric data: radius_mean'')"
  by (simp add: handler_eval)

text \<open>
  Claim C9, as the code has it, for a feature list that is not empty. When the body is
  JSON \<^verbatim>\<open>null\<close>, a boolean or a number, the membership test raises \<^verbatim>\<open>TypeError\<close> and the
  response is the server error 500 with its text. When the body is a JSON array or a
  JSON string, the response is 400 for the first required feature \<open>f\<close>: \<^verbatim>\<open>Missing: f\<close>
  when \<open>f\<close> is no element of the array (no substring of the string), and
  \<^verbatim>\<open>Invalid numeric data: f\<close> otherwise. In both cases \<^verbatim>\<open>predict\<close> is not called.
\<close>

theorem C9_not_an_object:
  assumes "feature_names w = f # rest"
  shows "(d = JNull \<or> (\<exists>b. d = JBool b) \<or> (\<exists>i. d = JInt i) \<or> (\<exists>x. d = JFloat x)
          \<longrightarrow> handle_inference w sf (Inr d) =
                Response 500 (ServerError
                  (''argument of type '' @ quoted (type_name d) @ '' is not iterable''))
              \<and> predict_calls w sf (Inr d) = [])
       \<and> ((\<exists>xs. d = JList xs) \<or> (\<exists>s. d = JStr s)
          \<longrightarrow> handle_inference w sf (Inr d) =
                Response 400 (ValidationFailure
                  ((if py_contains d f = Inr True then ''Invalid numeric data: '' else ''Missing: '') @ f))
              \<and> predict_calls w sf (Inr d) = [])"
  using non_container_body [OF assms, of d sf] list_or_str_body [OF assms, of d sf]
  by (simp add: handle_inference_def predict_calls_def)

text \<open>The theorem at the bodies \<^verbatim>\<open>null\<close>, \<^verbatim>\<open>7\<close> and \<^verbatim>\<open>["radius_mean"]\<close>.\<close>

theorem C9_witness:
  "handle_inference demo_detector ascii_float (Inr JNull) =
     Response 500 (ServerError (''argument of type '' @ quoted ''NoneType'' @ '' is not iterable''))
   \<and> handle_inference demo_detector ascii_float (Inr (JInt 7)) =
     Response 500 (ServerError (''argument of type '' @ quoted ''int'' @ '' is not iterable''))
   \<and> handle_inference demo_detector ascii_float (Inr (JList [JStr ''radius_mean''])) =
     Response 400 (ValidationFailure ''Invalid numeric data: radius_mean'')"
proof -
  have fs: "feature_names demo_detector = ''radius_mean'' # [''texture_mean'']"
    by (simp add: demo_detector_def)
  from C9_not_an_object [OF fs, of JNull ascii_float] C9_not_an_object [OF fs, of "JInt 7" ascii_float]
    C9_not_an_object [OF fs, of "JList [JStr ''radius_mean'']" ascii_float]
  show ?thesis by simp
qed

subsection \<open>Order of validation and keys that are no features\<close>

text \<open>
  Claim C10. The fields are validated in the order of the feature list and the handler
  returns at the first one that fails: when every field before \<open>f\<close> is valid and \<open>f\<close> is
  not, the response is the one that the handler gives when \<open>f\<close> is the only required
  feature, and \<^verbatim>\<open>predict\<close> is not called. Keys outside the feature list are ignored: two
  objects that agree on the required features get the same response and the same call
  of \<^verbatim>\<open>predict\<close>. The keys of the vector passed to \<^verbatim>\<open>predict\<close> are the required feature
  names, each once.
\<close>

theorem C10_order_and_extra_keys:
  "(\<forall>d pre f rest.
      feature_names w = pre @ f # rest \<and> (\<forall>g\<in>set pre. valid_entry sf d g) \<and> \<not> valid_entry sf d f
      \<longrightarrow> handle_inference w sf (Inr d) = handle_inference (w\<lparr>feature_names := [f]\<rparr>) sf (Inr d)
          \<and> predict_calls w sf (Inr d) = [])
   \<and> (\<forall>kv kv'.
        (\<forall>g\<in>set (feature_names w). map_of kv g = map_of kv' g)
        \<longrightarrow> handle_inference w sf (Inr (JDict kv)) = handle_inference w sf (Inr (JDict kv'))
            \<and> predict_calls w sf (Inr (JDict kv)) = predict_calls w sf (Inr (JDict kv')))
   \<and> (\<forall>req. \<forall>m\<in>set (predict_calls w sf req).
        fst ` set m = set (feature_names w) \<and> distinct (map fst m))"
proof (intro conjI allI impI ballI)
  fix d pre f rest
  assume a: "feature_names w = pre @ f # rest \<and> (\<forall>g\<in>set pre. valid_entry sf d g)
      \<and> \<not> valid_entry sf d f"
  then have "inference_body w sf (Inr d) = inference_body (w\<lparr>feature_names := [f]\<rparr>) sf (Inr d)"
    by (intro inference_body_first_failure(1)) auto
  then show "handle_inference w sf (Inr d) = handle_inference (w\<lparr>feature_names := [f]\<rparr>) sf (Inr d)"
    by (simp add: handle_inference_def)
  from a show "predict_calls w sf (Inr d) = []"
    by (intro inference_body_first_failure(2)) auto
next
  fix kv kv' :: "(string \<times> json) list"
  assume "\<forall>g\<in>set (feature_names w). map_of kv g = map_of kv' g"
  then have "\<forall>g\<in>set (feature_names w).
      py_contains (JDict kv) g = py_contains (JDict kv') g
      \<and> convert_field sf (JDict kv) g = convert_field sf (JDict kv') g"
    by (simp add: convert_field_def)
  from handle_inference_cong [OF this]
  show "handle_inference w sf (Inr (JDict kv)) = handle_inference w sf (Inr (JDict kv'))"
    and "predict_calls w sf (Inr (JDict kv)) = predict_calls w sf (Inr (JDict kv'))"
    by (simp_all add: handle_inference_def predict_calls_def)
next
  fix req m
  assume "m \<in> set (predict_calls w sf req)"
  then show "fst ` set m = set (feature_names w)" and "distinct (map fst m)"
    by (rule predict_calls_names)+
qed

text \<open>
  The theorem at a submission whose second field is negative, at two submissions that
  differ in a key that is no feature, and at the vector passed for them.
\<close>

theorem C10_witness:
  "handle_inference demo_detector ascii_float
     (Inr (JDict [(''radius_mean'', JInt 14), (''texture_mean'', JInt (- 3))])) =
   handle_inference (demo_detector\<lparr>feature_names := [''texture_mean'']\<rparr>) ascii_float
     (Inr (JDict [(''radius_mean'', JInt 14), (''texture_mean'', JInt (- 3))]))
   \<and> handle_inference demo_detector ascii_float
       (Inr (JDict [(''radius_mean'', JInt 14), (''texture_mean'', JInt 10)])) =
     handle_inference demo_detector ascii_float
       (Inr (JDict [(''patient'', JStr ''A''), (''radius_mean'', JInt 14), (''texture_mean'', JInt 10)]))
   \<and> predict_calls demo_detector ascii_float
       (Inr (JDict [(''patient'', JStr ''A''), (''radius_mean'', JInt 14), (''texture_mean'', JInt 10)])) =
     [[(''radius_mean'', Fin 14), (''texture_mean'', Fin 10)]]
   \<and> fst ` set [(''radius_mean'', Fin 14 :: pyfloat), (''texture_mean'', Fin 10)] =
     set (feature_names demo_detector)"
proof -
  let ?d = "JDict [(''radius_mean'', JInt 14), (''texture_mean'', JInt (- 3))]"
  let ?kv = "[(''radius_mean'', JInt 14), (''texture_mean'', JInt 10)]"
  let ?kv' = "[(''patient'', JStr ''A''), (''radius_mean'', JInt 14), (''texture_mean'', JInt 10)]"
  note c10 = C10_order_and_extra_keys [of demo_detector ascii_float]
  have first: "feature_names demo_detector = [''radius_mean''] @ ''texture_mean'' # []
      \<and> (\<forall>g\<in>set [''radius_mean'']. valid_entry ascii_float ?d g)
      \<and> \<not> valid_entry ascii_float ?d ''texture_mean''"
    by (simp add: demo_detector_def valid_entry_def accepted_value_def convert_field_def fl_eval)
  from c10 have "feature_names demo_detector = [''radius_mean''] @ ''texture_mean'' # []
      \<and> (\<forall>g\<in>set [''radius_mean'']. valid_entry ascii_float ?d g)
      \<and> \<not> valid_entry ascii_float ?d ''texture_mean''
      \<longrightarrow> handle_inference demo_detector ascii_float (Inr ?d) =
            handle_inference (demo_detector\<lparr>feature_names := [''texture_mean'']\<rparr>) ascii_float (Inr ?d)
          \<and> predict_calls demo_detector ascii_float (Inr ?d) = []"
    by blast
  with first have a: "handle_inference demo_detector ascii_float (Inr ?d) =
      handle_inference (demo_detector\<lparr>feature_names := [''texture_mean'']\<rparr>) ascii_float (Inr ?d)"
    by blast
  have same: "\<forall>g\<in>set (feature_names demo_detector). map_of ?kv g = map_of ?kv' g"
    by (simp add: demo_detector_def)
  from c10 have "(\<forall>g\<in>set (feature_names demo_detector). map_of ?kv g = map_of ?kv' g)
      \<longrightarrow> handle_inference demo_detector ascii_float (Inr (JDict ?kv)) =
            handle_inference demo_detector ascii_float (Inr (JDict ?kv'))
          \<and> predict_calls demo_detector ascii_float (Inr (JDict ?kv)) =
            predict_calls demo_detector ascii_float (Inr (JDict ?kv'))"
    by blast
  with same have b: "handle_inference demo_detector ascii_float (Inr (JDict ?kv)) =
      handle_inference demo_detector ascii_float (Inr (JDict ?kv'))"
    by blast
  have calls: "predict_calls demo_detector ascii_float (Inr (JDict ?kv')) =
      [[(''radius_mean'', Fin 14), (''texture_mean'', Fin 10)]]"
    by (simp add: handler_eval fl_eval)
  from c10 have "\<forall>m\<in>set (predict_calls demo_detector ascii_float (Inr (JDict ?kv'))).
      fst ` set m = set (feature_names demo_detector) \<and> distinct (map fst m)"
    by blast
  with calls have c: "fst ` set [(''radius_mean'', Fin 14 :: pyfloat), (''texture_mean'', Fin 10)] =
      set (feature_names demo_detector)"
    by simp
  from a b calls c show ?thesis
    by (intro conjI)
qed

section \<open>The fetch-sample-cases operation\<close>


lemma zip_filter_columns:
  "zip (filter P cs) (map snd (filter (\<lambda>kx. P (fst kx)) (zip cs r))) =
     filter (\<lambda>kx. P (fst kx)) (zip cs r)"
proof (induction cs arbitrary: r)
  case Nil
  then show ?case by simp
next
  case (Cons c cs)
  then show ?case by (cases r) auto
qed

lemma sample_case_Inr:
  assumes "sample_case v r dataset = Inr c"
  shows "\<exists>row\<in>set (rows dataset).
           map_of (zip (columns dataset) row) ''diagnosis'' = Some (CNum (Fin (of_int v)))
           \<and> c = filter (\<lambda>kx. fst kx \<noteq> ''diagnosis'') (zip (columns dataset) row)"
proof -
  let ?hit = "\<lambda>row. map_of (zip (columns dataset) row) ''diagnosis'' = Some (CNum (Fin (of_int v)))"
  let ?sel = "filter ?hit (rows dataset)"
  from assms have col: "''diagnosis'' \<in> set (columns dataset)" and ne: "?sel \<noteq> []"
    by (auto simp: sample_case_def select_diagnosis_def sample1_def split: if_splits sum.splits)
  define row where "row = ?sel ! (r mod length ?sel)"
  from ne have "row \<in> set ?sel"
    unfolding row_def by (intro nth_mem) simp
  then have row: "row \<in> set (rows dataset)" "?hit row"
    by simp_all
  from assms col ne have "c = zip (filter (\<lambda>k. k \<noteq> ''diagnosis'') (columns dataset))
        (map snd (filter (\<lambda>kx. fst kx \<noteq> ''diagnosis'') (zip (columns dataset) row)))"
    by (simp add: sample_case_def select_diagnosis_def sample1_def drop_column_def iloc0_to_dict_def
          row_def)
  then have "c = filter (\<lambda>kx. fst kx \<noteq> ''diagnosis'') (zip (columns dataset) row)"
    using zip_filter_columns [of "\<lambda>k. k \<noteq> ''diagnosis''" "columns dataset" row] by simp
  with row show ?thesis by blast
qed

lemma sample_case_Inl:
  "sample_case v r dataset = Inl e \<longleftrightarrow>
     (''diagnosis'' \<notin> set (columns dataset) \<and> e = PyExc KeyError (quoted ''diagnosis''))
   \<or> (''diagnosis'' \<in> set (columns dataset)
      \<and> (\<forall>row\<in>set (rows dataset).
            map_of (zip (columns dataset) row) ''diagnosis'' \<noteq> Some (CNum (Fin (of_int v))))
      \<and> e = empty_population_error)"
  by (auto simp: sample_case_def select_diagnosis_def sample1_def drop_column_def iloc0_to_dict_def
        filter_empty_conv)



text \<open>
  Claim C7. When reading the data set raises \<open>e\<close>, the response is the body
  \<^verbatim>\<open>{'success': False, 'error': str(e)}\<close>, whatever a later attempt to read would give: the
  handler reads once. The same body, with the text of the exception, is the response
  when the data set has no column \<^verbatim>\<open>diagnosis\<close> (\<^verbatim>\<open>KeyError\<close>) and when it has no row of
  one of the two classes (the \<^verbatim>\<open>ValueError\<close> of the sampling).
\<close>

theorem C7_sample_failure:
  "(read_csv 0 = Inl e
      \<longrightarrow> provide_example_cases read_csv r1 r2 = Response 200 (SamplesFailure (exc_str e)))
   \<and> (read_csv 0 = Inr dataset \<and> ''diagnosis'' \<notin> set (columns dataset)
      \<longrightarrow> provide_example_cases read_csv r1 r2 = Response 200 (SamplesFailure (quoted ''diagnosis'')))
   \<and> (read_csv 0 = Inr dataset \<and> ''diagnosis'' \<in> set (columns dataset)
        \<and> ((\<forall>row\<in>set (rows dataset).
               map_of (zip (columns dataset) row) ''diagnosis'' \<noteq> Some (CNum (Fin 1)))
           \<or> (\<forall>row\<in>set (rows dataset).
               map_of (zip (columns dataset) row) ''diagnosis'' \<noteq> Some (CNum (Fin 0))))
      \<longrightarrow> provide_example_cases read_csv r1 r2 =
            Response 200 (SamplesFailure (exc_str empty_population_error)))"
proof (intro conjI impI)
  assume "read_csv 0 = Inl e"
  then show "provide_example_cases read_csv r1 r2 = Response 200 (SamplesFailure (exc_str e))"
    by (simp add: provide_example_cases_def)
next
  assume a: "read_csv 0 = Inr dataset \<and> ''diagnosis'' \<notin> set (columns dataset)"
  then have "sample_case 1 r1 dataset = Inl (PyExc KeyError (quoted ''diagnosis''))"
    by (simp add: sample_case_Inl)
  with a show "provide_example_cases read_csv r1 r2 = Response 200 (SamplesFailure (quoted ''diagnosis''))"
    by (simp add: provide_example_cases_def)
next
  assume a: "read_csv 0 = Inr dataset \<and> ''diagnosis'' \<in> set (columns dataset)
        \<and> ((\<forall>row\<in>set (rows dataset).
               map_of (zip (columns dataset) row) ''diagnosis'' \<noteq> Some (CNum (Fin 1)))
           \<or> (\<forall>row\<in>set (rows dataset).
               map_of (zip (columns dataset) row) ''diagnosis'' \<noteq> Some (CNum (Fin 0))))"
  show "provide_example_cases read_csv r1 r2 =
            Response 200 (SamplesFailure (exc_str empty_population_error))"
  proof (cases "sample_case 1 r1 dataset")
    case (Inl e1)
    with a have "e1 = empty_population_error"
      by (auto simp: sample_case_Inl)
    with Inl a show ?thesis
      by (simp add: provide_example_cases_def)
  next
    case (Inr c)
    from sample_case_Inr [OF Inr] a
    have "\<forall>row\<in>set (rows dataset).
            map_of (zip (columns dataset) row) ''diagnosis'' \<noteq> Some (CNum (Fin (of_int 0)))"
      by auto
    with a have "sample_case 0 r2 dataset = Inl empty_population_error"
      by (simp add: sample_case_Inl)
    with Inr a show ?thesis
      by (simp add: provide_example_cases_def)
  qed
qed

text \<open>
  The theorem at a file that is missing at the first attempt and present at the second,
  at a data set with benign rows only, and at one without the column \<^verbatim>\<open>diagnosis\<close>.
\<close>

theorem C7_witness:
  "provide_example_cases missing_then_present 0 0 =
     Response 200 (SamplesFailure ''No such file or directory'')
   \<and> missing_then_present 1 = Inr demo_dataset
   \<and> provide_example_cases
       (\<lambda>k. Inr (DataFrame [''diagnosis'', ''radius_mean''] [[CNum (Fin 1), CNum (Fin 12)]])) 0 0 =
     Response 200 (SamplesFailure ''a must be greater than 0 unless no samples are taken'')
   \<and> provide_example_cases (\<lambda>k. Inr (DataFrame [''radius_mean''] [[CNum (Fin 12)]])) 0 0 =
     Response 200 (SamplesFailure (quoted ''diagnosis''))"
proof -
  let ?e = "PyExc OtherException ''No such file or directory''"
  let ?benign = "DataFrame [''diagnosis'', ''radius_mean''] [[CNum (Fin 1), CNum (Fin 12)]]"
  let ?nolabel = "DataFrame [''radius_mean''] [[CNum (Fin 12)]]"
  have one: "missing_then_present 0 = Inl ?e" and again: "missing_then_present 1 = Inr demo_dataset"
    by (simp_all add: missing_then_present_def)
  have three: "(\<lambda>k::nat. Inr ?benign :: py_exception + dataframe) 0 = Inr ?benign
      \<and> ''diagnosis'' \<in> set (columns ?benign)
      \<and> ((\<forall>row\<in>set (rows ?benign).
             map_of (zip (columns ?benign) row) ''diagnosis'' \<noteq> Some (CNum (Fin 1)))
         \<or> (\<forall>row\<in>set (rows ?benign).
             map_of (zip (columns ?benign) row) ''diagnosis'' \<noteq> Some (CNum (Fin 0))))"
    by simp
  have two: "(\<lambda>k::nat. Inr ?nolabel :: py_exception + dataframe) 0 = Inr ?nolabel
      \<and> ''diagnosis'' \<notin> set (columns ?nolabel)"
    by simp
  from C7_sample_failure [of missing_then_present ?e 0 0 demo_dataset] one
  have a: "provide_example_cases missing_then_present 0 0 = Response 200 (SamplesFailure (exc_str ?e))"
    by blast
  from C7_sample_failure [of "\<lambda>k. Inr ?benign" ?e 0 0 ?benign] three
  have b: "provide_example_cases (\<lambda>k. Inr ?benign) 0 0 =
      Response 200 (SamplesFailure (exc_str empty_population_error))"
    by blast
  from C7_sample_failure [of "\<lambda>k. Inr ?nolabel" ?e 0 0 ?nolabel] two
  have c: "provide_example_cases (\<lambda>k. Inr ?nolabel) 0 0 =
      Response 200 (SamplesFailure (quoted ''diagnosis''))"
    by blast
  from a b c again show ?thesis
    by (simp add: empty_population_error_def)
qed

end
